theory Spec2Isabelle
  imports Main "HOL-Library.Multiset" "HOL-Library.Char_ord" "HOL-Library.List_Lexorder"
begin

section \<open>Tables, values and exceptions\<close>

text \<open>
  The program is one class, \<open>ASADataProcessor\<close>, whose methods reshape the tables that the
  analytics client returns. A table (a pandas DataFrame) is modelled row-wise: a schema,
  the list of column labels in order, each with its dtype, and the rows, each row
  listing its cells in the order of the schema. Labels may repeat, as they may in pandas:
  a merge whose suffixed label meets an existing label yields two columns of one label.

  A cell is a number, a string, a list (the multi-valued \<open>team_id\<close> of a player) or the
  missing value. Numbers are integers: the program moves statistics around and compares
  only scores. The only dtype that changes what an operation does is \<open>category\<close>, which
  has no string concatenation.

  Every exception of the program is a value: a computation that may raise returns
  \<open>exn + 'a\<close>, with \<open>Inl\<close> the exception. \<open>ClientError\<close> stands for whatever the client
  raises on a failed request.

  Not modelled: the row index of a frame (the program never aligns two frames on it),
  floating point, and the dtypes other than \<open>category\<close>, so a join of key columns of
  different dtypes does not raise here.
\<close>

datatype val = VInt int | VStr string | VList "val list" | VNaN

datatype dtype = ObjectDtype | CategoryDtype

datatype exn =
    KeyError "string list"
  | ValueError string
  | TypeError string
  | MergeError "string list"
  | UnboundLocalError string
  | ClientError string

record table =
  schema :: "(string \<times> dtype) list"
  rows :: "val list list"

type_synonym series = "(string \<times> val) list"

definition columns :: "table \<Rightarrow> string list" where
  "columns t = map fst (schema t)"

definition DataFrame :: table where
  \<comment> \<open>\<open>pd.DataFrame()\<close>: no columns, no rows\<close>
  "DataFrame = \<lparr>schema = [], rows = []\<rparr>"

definition wf_table :: "table \<Rightarrow> bool" where
  "wf_table t = list_all (\<lambda>r. length r = length (schema t)) (rows t)"

definition bindR :: "exn + 'a \<Rightarrow> ('a \<Rightarrow> exn + 'b) \<Rightarrow> exn + 'b" where
  "bindR m f = (case m of Inl e \<Rightarrow> Inl e | Inr x \<Rightarrow> f x)"

fun sequenceR :: "(exn + 'a) list \<Rightarrow> exn + 'a list" where
  "sequenceR [] = Inr []"
| "sequenceR (m # ms) =
     (case m of Inl e \<Rightarrow> Inl e
      | Inr x \<Rightarrow> (case sequenceR ms of Inl e \<Rightarrow> Inl e | Inr xs \<Rightarrow> Inr (x # xs)))"

definition endswith :: "string \<Rightarrow> string \<Rightarrow> bool" where
  \<comment> \<open>\<open>s.endswith(suffix)\<close>\<close>
  "endswith s suffix =
     (length suffix \<le> length s \<and> drop (length s - length suffix) s = suffix)"

subsection \<open>Class constants\<close>

definition COMPETITION :: string where "COMPETITION = ''uslc''"
definition DUPLICATE_SUFFIX :: string where "DUPLICATE_SUFFIX = ''_dup''"
definition TEAM_ID :: string where "TEAM_ID = ''team_id''"
definition PLAYER_ID :: string where "PLAYER_ID = ''player_id''"
definition STADIUM_ID :: string where "STADIUM_ID = ''stadium_id''"
definition MANAGER_ID :: string where "MANAGER_ID = ''manager_id''"
definition REFEREE_ID :: string where "REFEREE_ID = ''referee_id''"
definition HOME_TEAM_ID :: string where "HOME_TEAM_ID = ''home_team_id''"
definition HOME_MANAGER_ID :: string where "HOME_MANAGER_ID = ''home_manager_id''"
definition AWAY_TEAM_ID :: string where "AWAY_TEAM_ID = ''away_team_id''"
definition AWAY_MANAGER_ID :: string where "AWAY_MANAGER_ID = ''away_manager_id''"
definition GAME_ID :: string where "GAME_ID = ''game_id''"

section \<open>The table operations the program uses\<close>

text \<open>
  These follow pandas at the level of labels and rows. A label that is absent raises
  \<open>KeyError\<close>. Reading one column by a label that occurs more than once does not give a
  column in pandas (it gives a frame, and the program's next operation on it fails or
  changes meaning); the model reports it as \<open>ValueError\<close>. The tables the client builds
  from its JSON records have distinct labels.
\<close>

definition cells_where :: "(string \<Rightarrow> bool) \<Rightarrow> string list \<Rightarrow> 'a list \<Rightarrow> 'a list" where
  \<comment> \<open>the entries of a row (or of the schema) whose column label satisfies \<open>P\<close>\<close>
  "cells_where P labels xs = map snd (filter (\<lambda>p. P (fst p)) (zip labels xs))"

definition series_get :: "series \<Rightarrow> string \<Rightarrow> exn + val" where
  \<comment> \<open>\<open>row[c]\<close>\<close>
  "series_get s c =
     (case filter (\<lambda>kv. fst kv = c) s of
        [] \<Rightarrow> Inl (KeyError [c])
      | [kv] \<Rightarrow> Inr (snd kv)
      | _ \<Rightarrow> Inl (ValueError c))"

definition row_series :: "table \<Rightarrow> val list \<Rightarrow> series" where
  "row_series t r = zip (columns t) r"

definition column_values :: "table \<Rightarrow> string \<Rightarrow> exn + val list" where
  \<comment> \<open>\<open>df[c]\<close> as a column\<close>
  "column_values t c = sequenceR (map (\<lambda>r. series_get (row_series t r) c) (rows t))"

definition column_of :: "table \<Rightarrow> string \<Rightarrow> exn + (dtype \<times> val list)" where
  \<comment> \<open>\<open>df[c]\<close>: the dtype and the values of the one column labelled \<open>c\<close>\<close>
  "column_of t c =
     (case filter (\<lambda>p. fst p = c) (schema t) of
        [] \<Rightarrow> Inl (KeyError [c])
      | [p] \<Rightarrow> bindR (column_values t c) (\<lambda>vs. Inr (snd p, vs))
      | _ \<Rightarrow> Inl (ValueError c))"

definition select_columns :: "table \<Rightarrow> string list \<Rightarrow> exn + table" where
  \<comment> \<open>\<open>df[[c1, ..., cn]]\<close>: every column carrying each listed label, in the order of the list\<close>
  "select_columns t names =
     (case filter (\<lambda>c. c \<notin> set (columns t)) names of
        [] \<Rightarrow> Inr \<lparr>schema = concat (map (\<lambda>n. cells_where (\<lambda>c. c = n) (columns t) (schema t)) names),
                  rows = map (\<lambda>r. concat (map (\<lambda>n. cells_where (\<lambda>c. c = n) (columns t) r) names))
                           (rows t)\<rparr>
      | missing \<Rightarrow> Inl (KeyError missing))"

definition drop_columns :: "table \<Rightarrow> string list \<Rightarrow> exn + table" where
  \<comment> \<open>\<open>df.drop(columns=[...])\<close>\<close>
  "drop_columns t names =
     (case filter (\<lambda>c. c \<notin> set (columns t)) names of
        [] \<Rightarrow> Inr \<lparr>schema = cells_where (\<lambda>c. c \<notin> set names) (columns t) (schema t),
                  rows = map (cells_where (\<lambda>c. c \<notin> set names) (columns t)) (rows t)\<rparr>
      | missing \<Rightarrow> Inl (KeyError missing))"

definition assign_column :: "table \<Rightarrow> string \<Rightarrow> dtype \<Rightarrow> val list \<Rightarrow> table" where
  \<comment> \<open>\<open>df[c] = values\<close>: an existing label is overwritten in place, a new one is appended\<close>
  "assign_column t c d vs =
     (if c \<in> set (columns t)
      then \<lparr>schema = map (\<lambda>p. if fst p = c then (c, d) else p) (schema t),
            rows = map (\<lambda>(r, v). map (\<lambda>(l, x). if l = c then v else x) (zip (columns t) r))
                     (zip (rows t) vs)\<rparr>
      else \<lparr>schema = schema t @ [(c, d)],
            rows = map (\<lambda>(r, v). r @ [v]) (zip (rows t) vs)\<rparr>)"

definition assign_scalar :: "table \<Rightarrow> string \<Rightarrow> val \<Rightarrow> table" where
  \<comment> \<open>\<open>df[c] = v\<close> for a scalar \<open>v\<close>\<close>
  "assign_scalar t c v = assign_column t c ObjectDtype (replicate (length (rows t)) v)"

definition astype_category :: "table \<Rightarrow> string \<Rightarrow> exn + table" where
  \<comment> \<open>\<open>df[c] = df[c].astype('category')\<close>\<close>
  "astype_category t c =
     bindR (column_of t c) (\<lambda>(d, vs). Inr (assign_column t c CategoryDtype vs))"

definition filter_eq :: "table \<Rightarrow> string \<Rightarrow> val \<Rightarrow> exn + table" where
  \<comment> \<open>\<open>df[df[c] == v]\<close>\<close>
  "filter_eq t c v =
     bindR (column_of t c) (\<lambda>(d, vs).
       Inr (t\<lparr>rows := map fst (filter (\<lambda>(r, x). x = v) (zip (rows t) vs))\<rparr>))"

definition filter_ne :: "table \<Rightarrow> string \<Rightarrow> val \<Rightarrow> exn + table" where
  \<comment> \<open>\<open>df[df[c] != v]\<close>; a missing value is different from every \<open>v\<close>\<close>
  "filter_ne t c v =
     bindR (column_of t c) (\<lambda>(d, vs).
       Inr (t\<lparr>rows := map fst (filter (\<lambda>(r, x). x \<noteq> v) (zip (rows t) vs))\<rparr>))"


subsection \<open>Joins\<close>

text \<open>
  \<open>left.merge(right, how, left_on, right_on, suffixes)\<close>. The key columns are read first,
  the right one before the left one; a key label that is absent raises \<open>KeyError\<close>, one
  that is not unique \<open>ValueError\<close>, and a key that holds a list cannot be hashed. When both
  keys have the same label (the \<open>on=\<close> form) the right key column is left out of the
  result. A label that occurs on both sides gets the side's suffix; a suffix that
  makes two labels of one side equal raises \<open>MergeError\<close>, while a suffixed label that
  meets a label of the other side is not detected and gives a repeated label.
  Each left row, in order, is followed by the cells of every right row of the same key;
  a left row without a partner is kept with missing values by a left join and dropped
  by an inner join, which is the default of \<open>merge\<close>. Missing keys match each other.
  (For a left table without rows pandas keeps the right key column in place of the left
  one; the labels of the result are the same, their order is not modelled in that case.)
\<close>

datatype how = LeftJoin | InnerJoin

fun duplicated :: "'a list \<Rightarrow> 'a list \<Rightarrow> bool list" where
  "duplicated seen [] = []"
| "duplicated seen (x # xs) = (x \<in> set seen) # duplicated (x # seen) xs"

definition suffix_dups :: "string list \<Rightarrow> string list \<Rightarrow> string list" where
  \<comment> \<open>labels that repeat after renaming at a position that did not repeat before\<close>
  "suffix_dups before after =
     map fst (filter (\<lambda>(l, d_after, d_before). d_after \<and> \<not> d_before)
                (zip after (zip (duplicated [] after) (duplicated [] before))))"

fun is_list :: "val \<Rightarrow> bool" where
  "is_list (VList xs) = True"
| "is_list v = False"

definition join_row :: "how \<Rightarrow> val list \<Rightarrow> val list list \<Rightarrow> nat \<Rightarrow> val list list" where
  "join_row h l partners n =
     (case partners of
        [] \<Rightarrow> (case h of LeftJoin \<Rightarrow> [l @ replicate n VNaN] | InnerJoin \<Rightarrow> [])
      | _ \<Rightarrow> map (\<lambda>m. l @ m) partners)"

definition join_keep :: "string \<Rightarrow> string \<Rightarrow> string \<Rightarrow> bool" where
  \<comment> \<open>the columns of the right table that go into the result\<close>
  "join_keep left_on right_on c = (left_on \<noteq> right_on \<or> c \<noteq> right_on)"

definition right_schema :: "table \<Rightarrow> string \<Rightarrow> string \<Rightarrow> (string \<times> dtype) list" where
  "right_schema right left_on right_on =
     cells_where (join_keep left_on right_on) (columns right) (schema right)"

definition merged_schema ::
  "table \<Rightarrow> table \<Rightarrow> string \<Rightarrow> string \<Rightarrow> string \<times> string \<Rightarrow> exn + (string \<times> dtype) list" where
  "merged_schema left right left_on right_on suffixes =
     (let rschema = right_schema right left_on right_on;
          to_rename = filter (\<lambda>c. c \<in> set (map fst rschema)) (columns left);
          llabels = map (\<lambda>c. if c \<in> set to_rename then c @ fst suffixes else c) (columns left);
          rlabels = map (\<lambda>c. if c \<in> set to_rename then c @ snd suffixes else c) (map fst rschema);
          dups = suffix_dups (columns left) llabels @ suffix_dups (map fst rschema) rlabels
      in if to_rename \<noteq> [] \<and> fst suffixes = [] \<and> snd suffixes = []
         then Inl (ValueError ''columns overlap but no suffix specified'')
         else if dups \<noteq> [] then Inl (MergeError dups)
         else Inr (zip llabels (map snd (schema left)) @ zip rlabels (map snd rschema)))"

definition partners :: "table \<Rightarrow> string \<Rightarrow> string \<Rightarrow> val list \<Rightarrow> val \<Rightarrow> val list list" where
  \<comment> \<open>the kept cells of the right rows whose key is \<open>k\<close>, in the order of the right table\<close>
  "partners right left_on right_on rkeys k =
     map (\<lambda>(r, k'). cells_where (join_keep left_on right_on) (columns right) r)
       (filter (\<lambda>(r, k'). k' = k) (zip (rows right) rkeys))"

definition merged_rows ::
  "how \<Rightarrow> table \<Rightarrow> table \<Rightarrow> string \<Rightarrow> string \<Rightarrow> val list \<Rightarrow> val list \<Rightarrow> val list list" where
  "merged_rows h left right left_on right_on lkeys rkeys =
     concat (map (\<lambda>(l, k). join_row h l (partners right left_on right_on rkeys k)
                           (length (right_schema right left_on right_on)))
               (zip (rows left) lkeys))"

definition merge ::
  "table \<Rightarrow> table \<Rightarrow> how \<Rightarrow> string \<Rightarrow> string \<Rightarrow> string \<times> string \<Rightarrow> exn + table" where
  "merge left right h left_on right_on suffixes =
     bindR (column_of right right_on) (\<lambda>(rd, rkeys).
     bindR (column_of left left_on) (\<lambda>(ld, lkeys).
       if list_ex is_list (lkeys @ rkeys) then Inl (TypeError ''unhashable type: list'')
       else
     bindR (merged_schema left right left_on right_on suffixes) (\<lambda>merged.
       Inr \<lparr>schema = merged,
            rows = merged_rows h left right left_on right_on lkeys rkeys\<rparr>)))"

subsection \<open>Expanding a multi-valued column\<close>

definition explode_row :: "string list \<Rightarrow> string \<Rightarrow> val list \<Rightarrow> val list list" where
  \<comment> \<open>one row per element of a list cell; an empty list gives one row with a missing value\<close>
  "explode_row labels c r =
     (case series_get (zip labels r) c of
        Inr (VList []) \<Rightarrow> [map (\<lambda>(l, x). if l = c then VNaN else x) (zip labels r)]
      | Inr (VList xs) \<Rightarrow> map (\<lambda>v. map (\<lambda>(l, x). if l = c then v else x) (zip labels r)) xs
      | _ \<Rightarrow> [r])"

definition explode :: "table \<Rightarrow> string \<Rightarrow> exn + table" where
  \<comment> \<open>\<open>df.explode(c)\<close>\<close>
  "explode t c =
     (if \<not> distinct (columns t) then Inl (ValueError ''columns must be unique'')
      else if c \<notin> set (columns t) then Inl (KeyError [c])
      else Inr (t\<lparr>rows := concat (map (explode_row (columns t) c) (rows t))\<rparr>))"

section \<open>The methods of \<open>ASADataProcessor\<close>\<close>

subsection \<open>Results and points\<close>

text \<open>
  \<open>>\<close> and \<open><\<close> on two cells: numbers compare as numbers, strings by code point, and a
  comparison with a missing value is false. A list in a score column is outside the
  model (it is reported as \<open>TypeError\<close>, as a comparison of mixed types is).
\<close>

fun val_gt :: "val \<Rightarrow> val \<Rightarrow> exn + bool" where
  "val_gt (VInt a) (VInt b) = Inr (a > b)"
| "val_gt (VInt a) VNaN = Inr False"
| "val_gt VNaN (VInt b) = Inr False"
| "val_gt VNaN VNaN = Inr False"
| "val_gt (VStr a) (VStr b) = Inr (b < a)"
| "val_gt a b = Inl (TypeError ''> not supported between these types'')"

definition val_lt :: "val \<Rightarrow> val \<Rightarrow> exn + bool" where
  "val_lt a b = val_gt b a"

definition calculate_result :: "series \<Rightarrow> exn + val" where
  "calculate_result row =
     bindR (series_get row ''home_score'') (\<lambda>home_score.
     bindR (series_get row ''away_score'') (\<lambda>away_score.
     bindR (val_gt home_score away_score) (\<lambda>gt.
       if gt then Inr (VStr ''win'')
       else bindR (val_lt home_score away_score) (\<lambda>lt.
         if lt then Inr (VStr ''loss'') else Inr (VStr ''draw'')))))"

definition calculate_points :: "val \<Rightarrow> int" where
  "calculate_points result =
     (if result = VStr ''win'' then 3 else if result = VStr ''draw'' then 1 else 0)"

definition result_away_of :: "val \<Rightarrow> val" where
  \<comment> \<open>the lambda of line 355\<close>
  "result_away_of x =
     (if x = VStr ''loss'' then VStr ''win'' else if x = VStr ''win'' then VStr ''loss''
      else VStr ''draw'')"

definition set_result_home :: "table \<Rightarrow> exn + table" where
  \<comment> \<open>\<open>games['result_home'] = games.apply(self.calculate_result, axis=1)\<close>, one result
      per row\<close>
  "set_result_home games =
     bindR (sequenceR (map (\<lambda>r. calculate_result (row_series games r)) (rows games))) (\<lambda>res.
       Inr (assign_column games ''result_home'' ObjectDtype res))"

definition set_points_home :: "table \<Rightarrow> exn + table" where
  "set_points_home games =
     bindR (column_of games ''result_home'') (\<lambda>(d, vs).
       Inr (assign_column games ''points_home'' ObjectDtype
              (map (\<lambda>v. VInt (calculate_points v)) vs)))"

definition set_result_away :: "table \<Rightarrow> exn + table" where
  "set_result_away games =
     bindR (column_of games ''result_home'') (\<lambda>(d, vs).
       Inr (assign_column games ''result_away'' ObjectDtype (map result_away_of vs)))"

definition set_points_away :: "table \<Rightarrow> exn + table" where
  "set_points_away games =
     bindR (column_of games ''result_away'') (\<lambda>(d, vs).
       Inr (assign_column games ''points_away'' ObjectDtype
              (map (\<lambda>v. VInt (calculate_points v)) vs)))"

subsection \<open>Name enrichment\<close>

definition add_player_names :: "table \<Rightarrow> table \<Rightarrow> exn + table" where
  "add_player_names df players_df =
     bindR (select_columns players_df [PLAYER_ID, ''player_name'']) (\<lambda>names.
       merge df names LeftJoin PLAYER_ID PLAYER_ID (''_x'', ''_y''))"

definition has_list_values :: "table \<Rightarrow> string \<Rightarrow> bool" where
  \<comment> \<open>\<open>c in df and any(isinstance(x, list) for x in df[c].dropna())\<close>; iterating a frame
      (a repeated label) yields its labels, none of which is a list\<close>
  "has_list_values df c =
     (c \<in> set (columns df) \<and>
      (case column_of df c of Inr (d, vs) \<Rightarrow> list_ex is_list vs | Inl e \<Rightarrow> False))"

definition add_team_names :: "table \<Rightarrow> table \<Rightarrow> exn + table" where
  "add_team_names df teams_df =
     (if has_list_values df TEAM_ID
      then bindR (explode df TEAM_ID) (\<lambda>df_exploded.
           bindR (select_columns teams_df [TEAM_ID, ''team_name'']) (\<lambda>names.
             merge df_exploded names LeftJoin TEAM_ID TEAM_ID (''_x'', ''_y'')))
      else bindR (select_columns teams_df [TEAM_ID, ''team_name'']) (\<lambda>names.
             merge df names LeftJoin TEAM_ID TEAM_ID (''_x'', ''_y'')))"

definition add_stadium_names :: "table \<Rightarrow> table \<Rightarrow> exn + table" where
  "add_stadium_names df stadium_df =
     bindR (select_columns stadium_df [STADIUM_ID, ''stadium_name'']) (\<lambda>names.
       merge df names LeftJoin STADIUM_ID STADIUM_ID (''_x'', ''_y''))"

definition add_manager_names :: "table \<Rightarrow> table \<Rightarrow> exn + table" where
  "add_manager_names df managers_df =
     bindR (select_columns managers_df [MANAGER_ID, ''manager_name'']) (\<lambda>names.
       merge df names LeftJoin MANAGER_ID MANAGER_ID (''_x'', ''_y''))"

definition add_referee_names :: "table \<Rightarrow> table \<Rightarrow> exn + table" where
  "add_referee_names df referees_df =
     bindR (select_columns referees_df [REFEREE_ID, ''referee_name'']) (\<lambda>names.
       merge df names LeftJoin REFEREE_ID REFEREE_ID (''_x'', ''_y''))"

subsection \<open>The client, the log and guarded blocks\<close>

text \<open>
  The client gives four tables as attributes and the others through methods that take
  the competition; each access either raises or returns a table. A log entry is the
  message of a \<open>logging.error\<close> call up to its colon, with the exception it reports.
\<close>

record client =
  client_players :: "exn + table"
  client_teams :: "exn + table"
  client_stadia :: "exn + table"
  client_managers :: "exn + table"
  get_referees :: "string \<Rightarrow> exn + table"
  get_team_goals_added :: "string \<Rightarrow> exn + table"
  get_team_xgoals :: "string \<Rightarrow> exn + table"
  get_team_xpass :: "string \<Rightarrow> exn + table"
  get_goalkeeper_xgoals :: "string \<Rightarrow> exn + table"
  get_goalkeeper_goals_added :: "string \<Rightarrow> exn + table"
  get_player_goals_added :: "string \<Rightarrow> exn + table"
  get_player_xgoals :: "string \<Rightarrow> exn + table"
  get_player_xpass :: "string \<Rightarrow> exn + table"
  get_games :: "string \<Rightarrow> exn + table"
  get_game_xgoals :: "string \<Rightarrow> exn + table"

type_synonym log = "(string \<times> exn) list"

fun run_steps :: "'a \<Rightarrow> ('a \<Rightarrow> exn + 'a) list \<Rightarrow> 'a \<times> exn option" where
  \<comment> \<open>statements that rebind one variable, inside one \<open>try\<close>: the first exception ends
      the block and the variable keeps the value it had then\<close>
  "run_steps x [] = (x, None)"
| "run_steps x (f # fs) = (case f x of Inl e \<Rightarrow> (x, Some e) | Inr y \<Rightarrow> run_steps y fs)"

definition try_or :: "exn + 'a \<Rightarrow> string \<Rightarrow> 'a \<Rightarrow> 'a \<times> log" where
  \<comment> \<open>\<open>try: x = m  except Exception as e: logging.error(msg); x = fallback\<close>\<close>
  "try_or m msg fallback = (case m of Inr x \<Rightarrow> (x, []) | Inl e \<Rightarrow> (fallback, [(msg, e)]))"

subsection \<open>Team statistics\<close>

definition merge_statistic :: "table \<Rightarrow> table \<Rightarrow> exn + table" where
  \<comment> \<open>one of lines 156 to 158, with \<open>suffixes=('', '_dup')\<close>: the list of columns to drop
      is computed from \<open>teams\<close> as it is before the assignment, that is from the left
      operand of the merge\<close>
  "merge_statistic stats teams =
     bindR (merge teams stats LeftJoin TEAM_ID TEAM_ID ([], DUPLICATE_SUFFIX)) (\<lambda>merged.
       drop_columns merged (filter (\<lambda>col. endswith col DUPLICATE_SUFFIX) (columns teams)))"

definition expected_columns :: "string list" where
  "expected_columns = [''avg_vertical_distance_diff'']"

definition ensure_expected_columns :: "table \<Rightarrow> exn + table" where
  "ensure_expected_columns teams =
     Inr (foldl (\<lambda>t col. if col \<notin> set (columns t) then assign_scalar t col (VInt 0) else t)
            teams expected_columns)"

definition merge_team_statistics :: "client \<Rightarrow> table \<Rightarrow> table \<times> log" where
  "merge_team_statistics self teams =
     (case bindR (get_team_goals_added self COMPETITION) (\<lambda>team_goals_added.
           bindR (get_team_xgoals self COMPETITION) (\<lambda>team_xgoals.
           bindR (get_team_xpass self COMPETITION) (\<lambda>team_xpass.
             Inr (team_goals_added, team_xgoals, team_xpass)))) of
        Inl e \<Rightarrow> (teams, [(''Error merging team statistics for '' @ COMPETITION, e)])
      | Inr (team_goals_added, team_xgoals, team_xpass) \<Rightarrow>
          (case run_steps teams
                  [merge_statistic team_goals_added, merge_statistic team_xgoals,
                   merge_statistic team_xpass, ensure_expected_columns] of
             (teams', None) \<Rightarrow> (teams', [])
           | (teams', Some e) \<Rightarrow>
               (teams', [(''Error merging team statistics for '' @ COMPETITION, e)])))"

section \<open>\<open>fetch_data\<close>\<close>

text \<open>
  The body of \<open>fetch_data\<close> is a sequence of statements, some inside their own
  \<open>try\<close>, all inside the outer one. A statement yields a value or an exception, together
  with what it logged. \<open>guarded\<close> is a block whose handler has caught whatever was raised;
  \<open>unguarded\<close> is a statement under the outer \<open>try\<close> only, whose exception ends the body.
\<close>

type_synonym 'a run = "(exn + 'a) \<times> log"

definition bindL :: "'a run \<Rightarrow> ('a \<Rightarrow> 'b run) \<Rightarrow> 'b run" where
  "bindL m f =
     (case m of
        (Inl e, l) \<Rightarrow> (Inl e, l)
      | (Inr x, l) \<Rightarrow> (case f x of (r, l') \<Rightarrow> (r, l @ l')))"

definition guarded :: "'a \<times> log \<Rightarrow> 'a run" where
  "guarded p = (Inr (fst p), snd p)"

definition unguarded :: "exn + 'a \<Rightarrow> 'a run" where
  "unguarded m = (m, [])"

definition return :: "'a \<Rightarrow> 'a run" where
  "return x = (Inr x, [])"

definition try_keep :: "exn + 'a \<Rightarrow> string \<Rightarrow> 'a \<Rightarrow> 'a \<times> log" where
  \<comment> \<open>\<open>try: x = m  except Exception as e: logging.error(msg)\<close>, \<open>x\<close> keeping its value\<close>
  "try_keep m msg x = try_or m msg x"

definition fetch_dimension :: "exn + table \<Rightarrow> string \<Rightarrow> exn + table" where
  \<comment> \<open>\<open>attr[attr['competition'] == competition].copy()\<close>\<close>
  "fetch_dimension attr competition =
     bindR attr (\<lambda>df. filter_eq df ''competition'' (VStr competition))"

definition teams_columns :: "string list" where
  "teams_columns =
     [TEAM_ID, ''team_name'', ''team_short_name'', ''team_abbreviation'', ''competition'',
      ''minutes'', ''data'', ''count_games'', ''shots_for'', ''shots_against'', ''goals_for'',
      ''goals_against'', ''goal_difference'', ''xgoals_for'', ''xgoals_against'',
      ''xgoal_difference'', ''goal_difference_minus_xgoal_difference'', ''points'', ''xpoints'',
      ''attempted_passes_for'', ''pass_completion_percentage_for'',
      ''xpass_completion_percentage_for'', ''passes_completed_over_expected_for'',
      ''passes_completed_over_expected_p100_for'', ''avg_vertical_distance_for'',
      ''attempted_passes_against'', ''pass_completion_percentage_against'',
      ''xpass_completion_percentage_against'', ''passes_completed_over_expected_against'',
      ''passes_completed_over_expected_p100_against'', ''avg_vertical_distance_against'',
      ''passes_completed_over_expected_difference'', ''avg_vertical_distance_diff'']"

definition players_columns :: "string list" where
  "players_columns =
     [''player_id'', ''player_name'', ''birth_date'', ''nationality'', ''height_ft'', ''height_in'',
      ''weight_lb'', ''primary_broad_position'', ''primary_general_position'',
      ''secondary_broad_position'', ''secondary_general_position'', ''team_id'', ''team_name'',
      ''season_name'', ''competition'', ''general_position'', ''minutes_played'', ''shots'',
      ''shots_on_target'', ''goals'', ''xgoals'', ''xplace'', ''goals_minus_xgoals'', ''key_passes'',
      ''primary_assists'', ''xassists'', ''primary_assists_minus_xassists'',
      ''xgoals_plus_xassists'', ''points_added'', ''xpoints_added'', ''attempted_passes'',
      ''pass_completion_percentage'', ''xpass_completion_percentage'',
      ''passes_completed_over_expected'', ''passes_completed_over_expected_p100'',
      ''avg_distance_yds'', ''avg_vertical_distance_yds'', ''share_team_touches'', ''count_games'',
      ''data'']"

definition goalkeepers_columns :: "string list" where
  "goalkeepers_columns =
     players_columns @
     [''minutes_played'', ''shots_faced'', ''goals_conceded'', ''saves'', ''share_headed_shots'',
      ''xgoals_gk_faced'', ''goals_minus_xgoals_gk'', ''goals_divided_by_xgoals_gk'']"

definition games_columns :: "string list" where
  "games_columns =
     [''game_id'', ''date_time_utc'', ''season_name'', ''matchday'', ''match_name'', ''attendance'',
      ''knockout_game'', ''extra_time'', ''penalties'', ''home_penalties'', ''away_penalties'',
      ''expanded_minutes'', ''home_team_id'', ''team_name_home'', ''team_abbreviation_home'',
      ''away_team_id'', ''team_name_away'', ''team_abbreviation_away'', ''home_score'',
      ''away_score'', ''home_goals'', ''away_goals'', ''home_team_xgoals'', ''away_team_xgoals'',
      ''home_player_xgoals'', ''away_player_xgoals'', ''goal_difference'',
      ''team_xgoal_difference'', ''player_xgoal_difference'', ''final_score_difference'',
      ''home_xpoints'', ''away_xpoints'', ''result_home'', ''points_home'', ''result_away'',
      ''points_away'', ''referee_id'', ''referee_name'', ''stadium_id'', ''stadium_name'',
      ''home_manager_id'', ''manager_name_home'', ''away_manager_id'', ''manager_name_away'']"

subsection \<open>Dimension tables (lines 186 to 245)\<close>

record dimensions =
  dim_players :: table
  dim_teams :: table
  dim_stadium :: table
  dim_mgrs :: table
  dim_refs :: table

definition fetch_dimensions :: "client \<Rightarrow> string \<Rightarrow> dimensions run" where
  "fetch_dimensions self competition =
     bindL (guarded (try_or (fetch_dimension (client_players self) competition)
                      (''Error fetching players data for '' @ competition) DataFrame)) (\<lambda>players.
     bindL (guarded (try_or (fetch_dimension (client_teams self) competition)
                      (''Error fetching teams data for '' @ competition) DataFrame)) (\<lambda>teams.
     bindL (guarded (merge_team_statistics self teams)) (\<lambda>teams.
     bindL (unguarded (astype_category teams ''team_name'')) (\<lambda>teams.
     bindL (unguarded (astype_category teams ''team_abbreviation'')) (\<lambda>teams.
     bindL (unguarded (select_columns teams teams_columns)) (\<lambda>teams.
     bindL (guarded (try_or (fetch_dimension (client_stadia self) competition)
                      (''Error fetching stadium data for '' @ competition) DataFrame)) (\<lambda>stadium.
     bindL (guarded (try_or (fetch_dimension (client_managers self) competition)
                      (''Error fetching managers data for '' @ competition) DataFrame)) (\<lambda>mgrs.
     bindL (unguarded (astype_category mgrs ''manager_name'')) (\<lambda>mgrs.
     bindL (guarded (try_or (get_referees self competition)
                      (''Error fetching referees data for '' @ competition) DataFrame)) (\<lambda>refs.
     bindL (unguarded (astype_category refs ''referee_name'')) (\<lambda>refs.
       return \<lparr>dim_players = players, dim_teams = teams, dim_stadium = stadium,
               dim_mgrs = mgrs, dim_refs = refs\<rparr>)))))))))))"

subsection \<open>Players, field players and goalkeepers (lines 247 to 336)\<close>

definition drop_dup_columns :: "table \<Rightarrow> string \<Rightarrow> exn + table" where
  \<comment> \<open>\<open>df[[c for c in df.columns if not c.endswith(suffix)]]\<close>\<close>
  "drop_dup_columns df suffix =
     select_columns df (filter (\<lambda>c. \<not> endswith c suffix) (columns df))"

definition try_steps :: "'a \<Rightarrow> ('a \<Rightarrow> exn + 'a) list \<Rightarrow> string \<Rightarrow> 'a \<times> log" where
  \<comment> \<open>a \<open>try\<close> around statements that rebind one variable, with a handler that logs\<close>
  "try_steps x fs msg =
     (case run_steps x fs of (y, None) \<Rightarrow> (y, []) | (y, Some e) \<Rightarrow> (y, [(msg, e)]))"

definition merge_player_statistic :: "string \<Rightarrow> table \<times> log \<Rightarrow> table \<Rightarrow> table \<times> log" where
  \<comment> \<open>one turn of the loop of line 281; the printed frame in the message is left out\<close>
  "merge_player_statistic competition pl df =
     (case try_steps (fst pl)
             [\<lambda>players. merge players df LeftJoin ''player_id'' ''player_id'' ([], ''_dup''),
              \<lambda>players. drop_dup_columns players ''_dup'']
             (''Error merging player data for '' @ competition) of
        (players, l) \<Rightarrow> (players, snd pl @ l))"

definition merge_goalkeeper_statistic :: "table \<Rightarrow> table \<Rightarrow> exn + table" where
  \<comment> \<open>one turn of the loop of line 320, which has no \<open>try\<close> of its own\<close>
  "merge_goalkeeper_statistic df goalkeepers =
     bindR (merge goalkeepers df LeftJoin PLAYER_ID PLAYER_ID ([], DUPLICATE_SUFFIX))
       (\<lambda>goalkeepers. drop_dup_columns goalkeepers DUPLICATE_SUFFIX)"

record squads =
  sq_players :: table
  sq_field_players :: table
  sq_goalkeepers :: table

definition split_players :: "table \<Rightarrow> exn + (table \<times> table)" where
  \<comment> \<open>lines 317 and 318: field players first, then goalkeepers\<close>
  "split_players players =
     bindR (filter_ne players ''primary_broad_position'' (VStr ''GK'')) (\<lambda>field_players.
     bindR (filter_eq players ''primary_broad_position'' (VStr ''GK'')) (\<lambda>goalkeepers.
       Inr (field_players, goalkeepers)))"

definition expand_player_teams :: "table \<Rightarrow> table \<Rightarrow> exn + table" where
  \<comment> \<open>line 297: \<open>self.add_team_names(players.explode('team_id'), teams)\<close>\<close>
  "expand_player_teams players teams =
     bindR (explode players ''team_id'') (\<lambda>exploded. add_team_names exploded teams)"

definition build_squads :: "client \<Rightarrow> string \<Rightarrow> dimensions \<Rightarrow> squads run" where
  "build_squads self competition dims =
     bindL (guarded (try_or
              (bindR (get_goalkeeper_xgoals self competition) (\<lambda>df.
               bindR (add_player_names df (dim_players dims)) (\<lambda>gk_xG.
                 add_team_names gk_xG (dim_teams dims))))
              (''Error processing goalkeeper xGoals for '' @ competition) DataFrame)) (\<lambda>gk_xG.
     bindL (guarded (try_or (get_goalkeeper_goals_added self competition)
              (''Error fetching goalkeeper goals added for '' @ competition) DataFrame)) (\<lambda>gk_G_added.
     bindL (guarded (try_or (get_player_goals_added self competition)
              (''Error fetching player goals added for '' @ competition) DataFrame)) (\<lambda>player_G_added.
     bindL (guarded (try_or (get_player_xgoals self competition)
              (''Error fetching player xGoals for '' @ competition) DataFrame)) (\<lambda>player_xG.
     bindL (guarded (try_or (get_player_xpass self competition)
              (''Error fetching player xPass for '' @ competition) DataFrame)) (\<lambda>player_xP.
     bindL (guarded (foldl (merge_player_statistic competition) (dim_players dims, [])
              [player_G_added, player_xG, player_xP])) (\<lambda>players.
     bindL (unguarded (astype_category players ''nationality'')) (\<lambda>players.
     bindL (unguarded (astype_category players ''primary_broad_position'')) (\<lambda>players.
     bindL (unguarded (astype_category players ''primary_general_position'')) (\<lambda>players.
     bindL (unguarded (astype_category players ''secondary_broad_position'')) (\<lambda>players.
     bindL (unguarded (astype_category players ''secondary_general_position'')) (\<lambda>players.
     bindL (guarded (try_keep (expand_player_teams players (dim_teams dims))
              (''Error enhancing player data with team information for '' @ competition)
              players)) (\<lambda>players.
     bindL (guarded (try_keep (select_columns players players_columns)
              (''Error reorganizing player data for '' @ competition) players)) (\<lambda>players.
     bindL (unguarded (split_players players)) (\<lambda>(field_players, goalkeepers).
     bindL (unguarded (merge_goalkeeper_statistic gk_xG goalkeepers)) (\<lambda>goalkeepers.
     bindL (unguarded (merge_goalkeeper_statistic gk_G_added goalkeepers)) (\<lambda>goalkeepers.
     bindL (unguarded (select_columns goalkeepers goalkeepers_columns)) (\<lambda>goalkeepers.
       return \<lparr>sq_players = players, sq_field_players = field_players,
               sq_goalkeepers = goalkeepers\<rparr>)))))))))))))))))"

subsection \<open>Games (lines 338 to 389)\<close>

text \<open>
  \<open>games\<close> is bound for the first time inside the \<open>try\<close> of line 339, and its handler
  binds nothing. The variable is therefore a \<open>table option\<close>, \<open>None\<close> while it is unbound,
  and reading it unbound raises \<open>UnboundLocalError\<close>.
\<close>

definition read_local :: "string \<Rightarrow> 'a option \<Rightarrow> exn + 'a" where
  "read_local name v = (case v of None \<Rightarrow> Inl (UnboundLocalError name) | Some x \<Rightarrow> Inr x)"

definition merge_team_info :: "table \<Rightarrow> string \<Rightarrow> string \<times> string \<Rightarrow> table \<Rightarrow> exn + table" where
  \<comment> \<open>lines 345 and 346: \<open>merge\<close> without \<open>how\<close>, an inner join\<close>
  "merge_team_info teams left_on suffixes games =
     bindR (select_columns teams [''team_id'', ''team_name'', ''team_abbreviation'']) (\<lambda>info.
       merge games info InnerJoin left_on TEAM_ID suffixes)"

definition merge_manager_info :: "table \<Rightarrow> string \<Rightarrow> string \<times> string \<Rightarrow> table \<Rightarrow> exn + table" where
  \<comment> \<open>lines 349 and 350: \<open>merge\<close> without \<open>how\<close>, an inner join\<close>
  "merge_manager_info mgrs left_on suffixes games =
     bindR (select_columns mgrs [''manager_id'', ''manager_name'']) (\<lambda>info.
       merge games info InnerJoin left_on MANAGER_ID suffixes)"

definition enrich_games :: "dimensions \<Rightarrow> (table \<Rightarrow> exn + table) list" where
  \<comment> \<open>lines 341 to 356, each statement rebinding or extending \<open>games\<close>\<close>
  "enrich_games dims =
     [\<lambda>games. add_stadium_names games (dim_stadium dims),
      \<lambda>games. add_referee_names games (dim_refs dims),
      merge_team_info (dim_teams dims) HOME_TEAM_ID (''_x'', ''_y''),
      merge_team_info (dim_teams dims) AWAY_TEAM_ID (''_home'', ''_away''),
      merge_manager_info (dim_mgrs dims) HOME_MANAGER_ID (''_x'', ''_y''),
      merge_manager_info (dim_mgrs dims) AWAY_MANAGER_ID (''_home'', ''_away''),
      set_result_home, set_points_home, set_result_away, set_points_away]"

definition process_games :: "client \<Rightarrow> string \<Rightarrow> dimensions \<Rightarrow> table option \<times> log" where
  \<comment> \<open>the \<open>try\<close> of lines 339 to 358\<close>
  "process_games self competition dims =
     (case get_games self COMPETITION of
        Inl e \<Rightarrow> (None, [(''Error processing games data for '' @ competition, e)])
      | Inr games \<Rightarrow>
          (case try_steps games (enrich_games dims)
                  (''Error processing games data for '' @ competition) of
             (games', l) \<Rightarrow> (Some games', l)))"

definition merge_game_xgoals :: "client \<Rightarrow> string \<Rightarrow> table option \<Rightarrow> table option \<times> log" where
  \<comment> \<open>the \<open>try\<close> of lines 361 to 366: the request comes first, then \<open>games\<close> is read\<close>
  "merge_game_xgoals self competition games =
     try_keep
       (bindR (get_game_xgoals self competition) (\<lambda>games_xG.
        bindR (read_local ''games'' games) (\<lambda>g.
        bindR (merge g games_xG LeftJoin GAME_ID GAME_ID ([], ''_xG'')) (\<lambda>merged.
          Inr (Some merged)))))
       (''Error merging game xGoals data for '' @ competition) games"

fun val_add :: "val \<Rightarrow> val \<Rightarrow> exn + val" where
  \<comment> \<open>\<open>+\<close> on two cells of object columns; a missing operand gives a missing result\<close>
  "val_add (VStr a) (VStr b) = Inr (VStr (a @ b))"
| "val_add (VInt a) (VInt b) = Inr (VInt (a + b))"
| "val_add (VList a) (VList b) = Inr (VList (a @ b))"
| "val_add VNaN b = Inr VNaN"
| "val_add a VNaN = Inr VNaN"
| "val_add a b = Inl (TypeError ''unsupported operand types for +'')"

definition set_match_name :: "table \<Rightarrow> exn + table" where
  \<comment> \<open>line 370; a column of dtype category has no \<open>+\<close>\<close>
  "set_match_name games =
     bindR (column_of games ''team_abbreviation_home'') (\<lambda>(dh, home).
       if dh = CategoryDtype then Inl (TypeError ''unsupported operand types for +'')
       else
     bindR (sequenceR (map (\<lambda>h. val_add h (VStr '' v '')) home)) (\<lambda>home_v.
     bindR (column_of games ''team_abbreviation_away'') (\<lambda>(da, away).
       if da = CategoryDtype then Inl (TypeError ''unsupported operand types for +'')
       else
     bindR (sequenceR (map (\<lambda>(h, a). val_add h a) (zip home_v away))) (\<lambda>names.
       Inr (assign_column games ''match_name'' ObjectDtype names)))))"

definition name_matches :: "string \<Rightarrow> table option \<Rightarrow> table option \<times> log" where
  \<comment> \<open>the \<open>try\<close> of lines 369 to 373; both statements change \<open>games\<close> in place\<close>
  "name_matches competition games =
     (case read_local ''games'' games of
        Inl e \<Rightarrow> (games, [(''Error creating match names or dropping columns for '' @ competition, e)])
      | Inr g \<Rightarrow>
          (case try_steps g
                  [set_match_name,
                   \<lambda>games. drop_columns games
                      [''date_time_utc_xG'', ''home_team_id_xG'', ''away_team_id_xG'',
                       ''last_updated_utc'']]
                  (''Error creating match names or dropping columns for '' @ competition) of
             (g', l) \<Rightarrow> (Some g', l)))"

definition select_games_columns :: "string \<Rightarrow> table option \<Rightarrow> table option \<times> log" where
  \<comment> \<open>the \<open>try\<close> of lines 376 to 389\<close>
  "select_games_columns competition games =
     try_keep
       (bindR (read_local ''games'' games) (\<lambda>g.
        bindR (select_columns g games_columns) (\<lambda>selected. Inr (Some selected))))
       (''Error selecting and renaming columns in games data for '' @ competition) games"

subsection \<open>The whole routine\<close>

definition compile_data ::
  "table option \<Rightarrow> squads \<Rightarrow> dimensions \<Rightarrow> exn + (string \<rightharpoonup> table)" where
  \<comment> \<open>lines 392 to 401; the dictionary display reads \<open>games\<close> first\<close>
  "compile_data games sq dims =
     bindR (read_local ''games'' games) (\<lambda>g.
       Inr (map_of
         [(''games'', g),
          (''players'', sq_players sq),
          (''field_players'', sq_field_players sq),
          (''goalkeepers'', sq_goalkeepers sq),
          (''teams'', dim_teams dims),
          (''stadium'', dim_stadium dims),
          (''mgrs'', dim_mgrs dims),
          (''refs'', dim_refs dims)]))"

definition fetch_body :: "client \<Rightarrow> string \<Rightarrow> (string \<rightharpoonup> table) run" where
  "fetch_body self competition =
     bindL (fetch_dimensions self competition) (\<lambda>dims.
     bindL (build_squads self competition dims) (\<lambda>sq.
     bindL (guarded (process_games self competition dims)) (\<lambda>games.
     bindL (guarded (merge_game_xgoals self competition games)) (\<lambda>games.
     bindL (guarded (name_matches competition games)) (\<lambda>games.
     bindL (guarded (select_games_columns competition games)) (\<lambda>games.
       unguarded (compile_data games sq dims)))))))"

definition fetch_data :: "client \<Rightarrow> string \<Rightarrow> (string \<rightharpoonup> table) \<times> log" where
  \<comment> \<open>\<open>data = {}\<close>, then the outer \<open>try\<close>, whose first statement rebinds \<open>competition\<close>
      to the class constant; its handler logs and leaves \<open>data\<close> empty\<close>
  "fetch_data self competition =
     (let competition = COMPETITION in
      case fetch_body self competition of
        (Inr data, l) \<Rightarrow> (data, l)
      | (Inl e, l) \<Rightarrow>
          (Map.empty, l @ [(''General error in fetch_data for '' @ competition, e)]))"

section \<open>Reading cells, and concrete inputs\<close>

definition cell :: "table \<Rightarrow> val list \<Rightarrow> string \<Rightarrow> val" where
  \<comment> \<open>the value of row \<open>r\<close> under label \<open>c\<close>, where that label names one column\<close>
  "cell t r c = (case series_get (row_series t r) c of Inr v \<Rightarrow> v | Inl e \<Rightarrow> VNaN)"

definition row_map :: "table \<Rightarrow> val list \<Rightarrow> string \<rightharpoonup> val" where
  \<comment> \<open>a row as a map from labels to cells, for tables with distinct labels\<close>
  "row_map t r = map_of (row_series t r)"

definition frame :: "string list \<Rightarrow> val list list \<Rightarrow> table" where
  \<comment> \<open>a table of object columns\<close>
  "frame labels rs = \<lparr>schema = map (\<lambda>c. (c, ObjectDtype)) labels, rows = rs\<rparr>"

definition offline_client :: client where
  \<comment> \<open>every request fails\<close>
  "offline_client =
     \<lparr>client_players = Inl (ClientError ''offline''),
      client_teams = Inl (ClientError ''offline''),
      client_stadia = Inl (ClientError ''offline''),
      client_managers = Inl (ClientError ''offline''),
      get_referees = (\<lambda>c. Inl (ClientError ''offline'')),
      get_team_goals_added = (\<lambda>c. Inl (ClientError ''offline'')),
      get_team_xgoals = (\<lambda>c. Inl (ClientError ''offline'')),
      get_team_xpass = (\<lambda>c. Inl (ClientError ''offline'')),
      get_goalkeeper_xgoals = (\<lambda>c. Inl (ClientError ''offline'')),
      get_goalkeeper_goals_added = (\<lambda>c. Inl (ClientError ''offline'')),
      get_player_goals_added = (\<lambda>c. Inl (ClientError ''offline'')),
      get_player_xgoals = (\<lambda>c. Inl (ClientError ''offline'')),
      get_player_xpass = (\<lambda>c. Inl (ClientError ''offline'')),
      get_games = (\<lambda>c. Inl (ClientError ''offline'')),
      get_game_xgoals = (\<lambda>c. Inl (ClientError ''offline''))\<rparr>"

text \<open>One game, won 2:1 by the home side.\<close>

definition example_game :: table where
  "example_game =
     frame [''home_team_id'', ''away_team_id'', ''home_score'', ''away_score'']
       [[VInt 1, VInt 2, VInt 2, VInt 1]]"

definition example_game_enriched :: table where
  "example_game_enriched =
     frame [''home_team_id'', ''away_team_id'', ''home_score'', ''away_score'',
            ''result_home'', ''points_home'', ''result_away'', ''points_away'']
       [[VInt 1, VInt 2, VInt 2, VInt 1, VStr ''win'', VInt 3, VStr ''loss'', VInt 0]]"

text \<open>
  One team and the three statistics tables; expected goals and expected passes both
  report \<open>count_games\<close>.
\<close>

definition one_team :: table where
  "one_team = frame [''team_id'', ''team_name''] [[VStr ''T1'', VStr ''Team A'']]"

definition stats_client :: client where
  "stats_client = offline_client
     \<lparr>get_team_goals_added := (\<lambda>c. Inr (frame [''team_id'', ''minutes''] [[VStr ''T1'', VInt 900]])),
      get_team_xgoals := (\<lambda>c. Inr (frame [''team_id'', ''count_games''] [[VStr ''T1'', VInt 10]])),
      get_team_xpass := (\<lambda>c. Inr (frame [''team_id'', ''count_games'', ''attempted_passes_for'']
                                  [[VStr ''T1'', VInt 10, VInt 4000]]))\<rparr>"

definition stats_client_xgoals_down :: client where
  "stats_client_xgoals_down =
     stats_client\<lparr>get_team_xgoals := (\<lambda>c. Inl (ClientError ''timeout''))\<rparr>"

text \<open>
  Two games against a table of one known team: the first game names an away team that
  the teams table does not have, the second a stadium that the stadium table does not
  have.
\<close>

definition known_dimensions :: dimensions where
  "known_dimensions =
     \<lparr>dim_players = DataFrame,
      dim_teams = frame [''team_id'', ''team_name'', ''team_abbreviation'']
                    [[VStr ''T1'', VStr ''Team A'', VStr ''TA'']],
      dim_stadium = frame [''stadium_id'', ''stadium_name''] [[VStr ''S1'', VStr ''Ground One'']],
      dim_mgrs = frame [''manager_id'', ''manager_name''] [[VStr ''M1'', VStr ''Coach One'']],
      dim_refs = frame [''referee_id'', ''referee_name''] [[VStr ''R1'', VStr ''Ref One'']]\<rparr>"

definition games_labels :: "string list" where
  "games_labels =
     [''game_id'', ''home_team_id'', ''away_team_id'', ''home_manager_id'', ''away_manager_id'',
      ''referee_id'', ''stadium_id'', ''home_score'', ''away_score'']"

definition game_unknown_away_team :: table where
  "game_unknown_away_team =
     frame games_labels
       [[VStr ''G1'', VStr ''T1'', VStr ''T9'', VStr ''M1'', VStr ''M1'', VStr ''R1'', VStr ''S1'',
         VInt 2, VInt 1]]"

definition game_unknown_stadium :: table where
  "game_unknown_stadium =
     frame games_labels
       [[VStr ''G2'', VStr ''T1'', VStr ''T1'', VStr ''M1'', VStr ''M1'', VStr ''R1'', VStr ''S9'',
         VInt 0, VInt 0]]"

text \<open>A player of two teams.\<close>

definition two_team_player :: table where
  "two_team_player =
     frame [''player_id'', ''team_id''] [[VStr ''P1'', VList [VStr ''T1'', VStr ''T2'']]]"

definition two_teams :: table where
  "two_teams =
     frame [''team_id'', ''team_name'', ''team_abbreviation'']
       [[VStr ''T1'', VStr ''Team A'', VStr ''TA''], [VStr ''T2'', VStr ''Team B'', VStr ''TB'']]"

text \<open>Three players, one of them without a position.\<close>

definition three_players :: table where
  "three_players =
     frame [''player_id'', ''primary_broad_position'']
       [[VStr ''P1'', VStr ''GK''], [VStr ''P2'', VStr ''FW''], [VStr ''P3'', VNaN]]"

text \<open>
  A client for a league of two teams, two players and one game, every request
  answered with the columns that \<open>fetch_data\<close> goes on to select.
\<close>

definition league_teams :: table where
  "league_teams = frame [''team_id'', ''team_name'', ''team_short_name'', ''team_abbreviation'', ''competition'']
     [[VStr ''T1'', VStr ''Team A'', VStr ''A'', VStr ''TA'', VStr ''uslc''],
      [VStr ''T2'', VStr ''Team B'', VStr ''B'', VStr ''TB'', VStr ''uslc'']]"

definition league_team_goals_added :: table where
  "league_team_goals_added = frame [''team_id'', ''minutes'', ''data'']
     [[VStr ''T1'', VInt 0, VInt 0], [VStr ''T2'', VInt 0, VInt 0]]"

definition league_team_xgoals :: table where
  "league_team_xgoals = frame [''team_id'', ''count_games'', ''shots_for'', ''shots_against'', ''goals_for'',
      ''goals_against'', ''goal_difference'', ''xgoals_for'', ''xgoals_against'',
      ''xgoal_difference'', ''goal_difference_minus_xgoal_difference'', ''points'', ''xpoints'']
     [VStr ''T1'' # replicate 12 (VInt 0), VStr ''T2'' # replicate 12 (VInt 0)]"

definition league_team_xpass :: table where
  "league_team_xpass = frame [''team_id'', ''attempted_passes_for'', ''pass_completion_percentage_for'',
      ''xpass_completion_percentage_for'', ''passes_completed_over_expected_for'',
      ''passes_completed_over_expected_p100_for'', ''avg_vertical_distance_for'',
      ''attempted_passes_against'', ''pass_completion_percentage_against'',
      ''xpass_completion_percentage_against'', ''passes_completed_over_expected_against'',
      ''passes_completed_over_expected_p100_against'', ''avg_vertical_distance_against'',
      ''passes_completed_over_expected_difference'', ''avg_vertical_distance_difference'']
     [VStr ''T1'' # replicate 14 (VInt 0), VStr ''T2'' # replicate 14 (VInt 0)]"

definition league_players :: table where
  "league_players = frame [''player_id'', ''player_name'', ''birth_date'', ''nationality'', ''height_ft'',
      ''height_in'', ''weight_lb'', ''primary_broad_position'', ''primary_general_position'',
      ''secondary_broad_position'', ''secondary_general_position'', ''season_name'', ''competition'']
     [[VStr ''P1'', VStr ''Ann Keeper'', VStr ''1995-01-01'', VStr ''USA'', VInt 6, VInt 2, VInt 180,
       VStr ''GK'', VStr ''GK'', VNaN, VNaN, VList [VStr ''2023'', VStr ''2024''], VStr ''uslc''],
      [VStr ''P2'', VStr ''Bo Striker'', VStr ''1998-05-05'', VStr ''USA'', VInt 5, VInt 11, VInt 170,
       VStr ''FW'', VStr ''ST'', VNaN, VNaN, VList [VStr ''2024''], VStr ''uslc'']]"

definition league_player_goals_added :: table where
  "league_player_goals_added = frame [''player_id'', ''team_id'', ''general_position'', ''minutes_played'', ''data'']
     [[VStr ''P1'', VList [VStr ''T1'', VStr ''T2''], VStr ''GK'', VInt 900, VInt 0],
      [VStr ''P2'', VStr ''T2'', VStr ''ST'', VInt 800, VInt 0]]"

definition league_player_xgoals :: table where
  "league_player_xgoals = frame [''player_id'', ''team_id'', ''general_position'', ''minutes_played'', ''shots'',
      ''shots_on_target'', ''goals'', ''xgoals'', ''xplace'', ''goals_minus_xgoals'', ''key_passes'',
      ''primary_assists'', ''xassists'', ''primary_assists_minus_xassists'',
      ''xgoals_plus_xassists'', ''points_added'', ''xpoints_added'']
     [[VStr ''P1'', VList [VStr ''T1'', VStr ''T2''], VStr ''GK'', VInt 900] @ replicate 13 (VInt 0),
      [VStr ''P2'', VStr ''T2'', VStr ''ST'', VInt 800] @ replicate 13 (VInt 0)]"

definition league_player_xpass :: table where
  "league_player_xpass = frame [''player_id'', ''team_id'', ''general_position'', ''minutes_played'',
      ''attempted_passes'', ''pass_completion_percentage'', ''xpass_completion_percentage'',
      ''passes_completed_over_expected'', ''passes_completed_over_expected_p100'',
      ''avg_distance_yds'', ''avg_vertical_distance_yds'', ''share_team_touches'', ''count_games'']
     [[VStr ''P1'', VList [VStr ''T1'', VStr ''T2''], VStr ''GK'', VInt 900] @ replicate 9 (VInt 0),
      [VStr ''P2'', VStr ''T2'', VStr ''ST'', VInt 800] @ replicate 9 (VInt 0)]"

definition league_goalkeeper_xgoals :: table where
  "league_goalkeeper_xgoals = frame [''player_id'', ''team_id'', ''minutes_played'', ''shots_faced'',
      ''goals_conceded'', ''saves'', ''share_headed_shots'', ''xgoals_gk_faced'',
      ''goals_minus_xgoals_gk'', ''goals_divided_by_xgoals_gk'']
     [[VStr ''P1'', VStr ''T1'', VInt 900] @ replicate 7 (VInt 0)]"

definition league_goalkeeper_goals_added :: table where
  "league_goalkeeper_goals_added = frame [''player_id'', ''team_id'', ''minutes_played'', ''data'']
     [[VStr ''P1'', VStr ''T1'', VInt 900, VInt 0]]"

definition league_stadia :: table where
  "league_stadia = frame [''stadium_id'', ''stadium_name'', ''competition'']
     [[VStr ''S1'', VStr ''Ground One'', VStr ''uslc'']]"

definition league_managers :: table where
  "league_managers = frame [''manager_id'', ''manager_name'', ''competition'']
     [[VStr ''M1'', VStr ''Coach One'', VStr ''uslc''], [VStr ''M2'', VStr ''Coach Two'', VStr ''uslc'']]"

definition league_referees :: table where
  "league_referees = frame [''referee_id'', ''referee_name'']
     [[VStr ''R1'', VStr ''Ref One'']]"

definition league_games :: table where
  "league_games = frame [''game_id'', ''date_time_utc'', ''home_score'', ''away_score'', ''home_team_id'',
      ''away_team_id'', ''referee_id'', ''stadium_id'', ''home_manager_id'', ''away_manager_id'',
      ''expanded_minutes'', ''season_name'', ''matchday'', ''attendance'', ''knockout_game'',
      ''extra_time'', ''penalties'', ''home_penalties'', ''away_penalties'', ''last_updated_utc'']
     [[VStr ''G1'', VStr ''2024-03-09'', VInt 2, VInt 1, VStr ''T1'', VStr ''T2'', VStr ''R1'', VStr ''S1'',
       VStr ''M1'', VStr ''M2'', VInt 96, VStr ''2024'', VInt 1, VInt 5000, VInt 0, VInt 0, VInt 0,
       VInt 0, VInt 0, VStr ''2024-03-10'']]"

definition league_game_xgoals :: table where
  "league_game_xgoals = frame [''game_id'', ''date_time_utc'', ''home_team_id'', ''home_team_xgoals'',
      ''home_player_xgoals'', ''away_team_id'', ''away_team_xgoals'', ''away_player_xgoals'',
      ''home_goals'', ''away_goals'', ''goal_difference'', ''team_xgoal_difference'',
      ''player_xgoal_difference'', ''final_score_difference'', ''home_xpoints'', ''away_xpoints'']
     [[VStr ''G1'', VStr ''2024-03-09'', VStr ''T1'', VInt 1, VInt 1, VStr ''T2'', VInt 1, VInt 1,
       VInt 2, VInt 1, VInt 1, VInt 0, VInt 0, VInt 1, VInt 2, VInt 1]]"

definition league_client :: client where
  "league_client =
     \<lparr>client_players = Inr league_players, client_teams = Inr league_teams,
      client_stadia = Inr league_stadia, client_managers = Inr league_managers,
      get_referees = (\<lambda>c. Inr league_referees),
      get_team_goals_added = (\<lambda>c. Inr league_team_goals_added),
      get_team_xgoals = (\<lambda>c. Inr league_team_xgoals),
      get_team_xpass = (\<lambda>c. Inr league_team_xpass),
      get_goalkeeper_xgoals = (\<lambda>c. Inr league_goalkeeper_xgoals),
      get_goalkeeper_goals_added = (\<lambda>c. Inr league_goalkeeper_goals_added),
      get_player_goals_added = (\<lambda>c. Inr league_player_goals_added),
      get_player_xgoals = (\<lambda>c. Inr league_player_xgoals),
      get_player_xpass = (\<lambda>c. Inr league_player_xpass),
      get_games = (\<lambda>c. Inr league_games),
      get_game_xgoals = (\<lambda>c. Inr league_game_xgoals)\<rparr>"


section \<open>Facts about the table operations\<close>

lemma sequenceR_all_Inr:
  "(\<And>x. x \<in> set xs \<Longrightarrow> g x = Inr (f x)) \<Longrightarrow> sequenceR (map g xs) = Inr (map f xs)"
  by (induction xs) auto

lemma filter_zip_map:
  "map fst (filter (\<lambda>(r, x). P x) (zip xs (map f xs))) = filter (\<lambda>r. P (f r)) xs"
  by (induction xs) auto

lemma count_one_filter:
  "count_list (map fst ps) c = 1 \<Longrightarrow> \<exists>p. filter (\<lambda>p. fst p = c) ps = [p] \<and> fst p = c"
proof (induction ps)
  case Nil
  then show ?case by simp
next
  case (Cons a ps)
  show ?case
  proof (cases "fst a = c")
    case True
    with Cons.prems have "count_list (map fst ps) c = 0" by simp
    then have "c \<notin> set (map fst ps)" by (simp add: count_list_0_iff)
    then have "filter (\<lambda>p. fst p = c) ps = []" by (auto simp: filter_empty_conv)
    with True show ?thesis by simp
  next
    case False
    with Cons show ?thesis by simp
  qed
qed

lemma series_get_wf:
  assumes "count_list labels c = 1" and "length r = length labels"
  shows "\<exists>v. series_get (zip labels r) c = Inr v"
proof -
  have "map fst (zip labels r) = labels" using assms(2) by simp
  with assms(1) have "count_list (map fst (zip labels r)) c = 1" by simp
  from count_one_filter[OF this] obtain p where "filter (\<lambda>p. fst p = c) (zip labels r) = [p]"
    by blast
  then show ?thesis by (simp add: series_get_def)
qed

lemma wf_table_row: "wf_table t \<Longrightarrow> r \<in> set (rows t) \<Longrightarrow> length r = length (columns t)"
  by (simp add: wf_table_def list_all_iff columns_def)

lemma series_get_cell:
  assumes "count_list (columns t) c = 1" and "wf_table t" and "r \<in> set (rows t)"
  shows "series_get (row_series t r) c = Inr (cell t r c)"
  using series_get_wf[OF assms(1) wf_table_row[OF assms(2,3)]]
  by (auto simp: cell_def row_series_def)

lemma column_of_wf:
  assumes "count_list (columns t) c = 1" and "wf_table t"
  shows "\<exists>d. column_of t c = Inr (d, map (\<lambda>r. cell t r c) (rows t))"
proof -
  from assms(1) have "count_list (map fst (schema t)) c = 1" by (simp add: columns_def)
  from count_one_filter[OF this] obtain p where p: "filter (\<lambda>p. fst p = c) (schema t) = [p]"
    by blast
  have "column_values t c = Inr (map (\<lambda>r. cell t r c) (rows t))"
    unfolding column_values_def
    by (rule sequenceR_all_Inr) (rule series_get_cell[OF assms])
  with p show ?thesis by (simp add: column_of_def bindR_def)
qed

lemma filter_ne_wf:
  assumes "count_list (columns t) c = 1" and "wf_table t"
  shows "filter_ne t c v = Inr (t\<lparr>rows := filter (\<lambda>r. cell t r c \<noteq> v) (rows t)\<rparr>)"
proof -
  from column_of_wf[OF assms] obtain d where
    "column_of t c = Inr (d, map (\<lambda>r. cell t r c) (rows t))" by blast
  then show ?thesis
    by (simp add: filter_ne_def bindR_def filter_zip_map[where P="\<lambda>x. x \<noteq> v"])
qed

lemma filter_eq_wf:
  assumes "count_list (columns t) c = 1" and "wf_table t"
  shows "filter_eq t c v = Inr (t\<lparr>rows := filter (\<lambda>r. cell t r c = v) (rows t)\<rparr>)"
proof -
  from column_of_wf[OF assms] obtain d where
    "column_of t c = Inr (d, map (\<lambda>r. cell t r c) (rows t))" by blast
  then show ?thesis
    by (simp add: filter_eq_def bindR_def filter_zip_map[where P="\<lambda>x. x = v"])
qed

lemma cells_where_schema: "cells_where P (map fst xs) xs = filter (\<lambda>p. P (fst p)) xs"
  unfolding cells_where_def by (induction xs) auto

lemma select_columns_labels:
  assumes "select_columns t names = Inr res"
  shows "set (columns res) \<subseteq> set names"
proof -
  from assms have "schema res =
      concat (map (\<lambda>n. cells_where (\<lambda>c. c = n) (columns t) (schema t)) names)"
    by (auto simp: select_columns_def split: list.splits)
  then have "schema res = concat (map (\<lambda>n. filter (\<lambda>p. fst p = n) (schema t)) names)"
    by (simp add: columns_def cells_where_schema)
  then show ?thesis by (auto simp: columns_def)
qed

text \<open>
  The players and goalkeepers loops (lines 283 and 284, 321 and 322) filter the labels of
  the merged table itself, so no suffixed label survives them.
\<close>

lemma drop_dup_columns_clean:
  assumes "drop_dup_columns df suffix = Inr res" and "c \<in> set (columns res)"
  shows "\<not> endswith c suffix"
  using select_columns_labels[OF assms(1)[unfolded drop_dup_columns_def]] assms(2) by auto

subsection \<open>Rows as maps, and column assignment\<close>

lemma series_get_map_of:
  "distinct (map fst s) \<Longrightarrow>
   series_get s c = (case map_of s c of None \<Rightarrow> Inl (KeyError [c]) | Some v \<Rightarrow> Inr v)"
proof (induction s)
  case Nil
  then show ?case by (simp add: series_get_def)
next
  case (Cons kv s)
  show ?case
  proof (cases "fst kv = c")
    case True
    with Cons.prems have "c \<notin> fst ` set s" by auto
    then have "filter (\<lambda>kv. fst kv = c) s = []" by (auto simp: filter_empty_conv)
    with True show ?thesis by (cases kv) (simp add: series_get_def)
  next
    case False
    with Cons show ?thesis by (cases kv) (simp add: series_get_def)
  qed
qed

lemma row_series_keys:
  "wf_table t \<Longrightarrow> r \<in> set (rows t) \<Longrightarrow> map fst (row_series t r) = columns t"
  by (simp add: row_series_def wf_table_def list_all_iff columns_def)

lemma cell_row_map:
  assumes "wf_table t" and "distinct (columns t)" and "r \<in> set (rows t)"
    and "row_map t r c = Some v"
  shows "cell t r c = v" and "series_get (row_series t r) c = Inr v"
proof -
  have "distinct (map fst (row_series t r))" using row_series_keys[OF assms(1,3)] assms(2) by simp
  from series_get_map_of[OF this, of c] assms(4)
  show "series_get (row_series t r) c = Inr v" by (simp add: row_map_def)
  then show "cell t r c = v" by (simp add: cell_def)
qed

lemma sequenceR_Inr_D:
  "sequenceR (map g xs) = Inr ys \<Longrightarrow>
   length ys = length xs \<and> (\<forall>p \<in> set (zip xs ys). g (fst p) = Inr (snd p))"
proof (induction xs arbitrary: ys)
  case Nil
  then show ?case by simp
next
  case (Cons x xs)
  then show ?case by (auto split: sum.splits)
qed

lemma map_of_zip_update_at:
  assumes "length cols = length r"
  shows "map_of (zip cols (map (\<lambda>(l, x). if l = c then v else x) (zip cols r))) k =
         (if k = c \<and> c \<in> set cols then Some v else map_of (zip cols r) k)"
  using assms by (induction cols r rule: list_induct2) auto

lemma map_of_zip_update:
  assumes "length r = length cols" and "c \<in> set cols"
  shows "map_of (zip cols (map (\<lambda>(l, x). if l = c then v else x) (zip cols r))) =
         (map_of (zip cols r))(c \<mapsto> v)"
  using map_of_zip_update_at[OF assms(1)[symmetric], of c v] assms(2)
  by (auto simp: fun_eq_iff)

lemma assign_column_columns:
  "columns (assign_column t c d vs) = (if c \<in> set (columns t) then columns t else columns t @ [c])"
proof -
  have "(\<lambda>p. fst (if fst p = c then (c, d) else p)) = fst" by (auto simp: fun_eq_iff)
  then show ?thesis by (simp add: assign_column_def columns_def comp_def)
qed

lemma zip_fst_in: "p \<in> set (zip xs ys) \<Longrightarrow> fst p \<in> set xs"
  by (metis prod.collapse set_zip_leftD)

lemma assign_column_rows:
  assumes "wf_table t" and "distinct (columns t)" and "length vs = length (rows t)"
  shows "wf_table (assign_column t c d vs)"
    and "distinct (columns (assign_column t c d vs))"
    and "\<forall>r' \<in> set (rows (assign_column t c d vs)).
           \<exists>p \<in> set (zip (rows t) vs).
             row_map (assign_column t c d vs) r' = (row_map t (fst p))(c \<mapsto> snd p)"
proof -
  let ?t = "assign_column t c d vs"
  have len: "\<And>r. r \<in> set (rows t) \<Longrightarrow> length r = length (columns t)"
    using assms(1) by (simp add: wf_table_def list_all_iff columns_def)
  show "wf_table ?t"
    using assms(1)
    by (auto simp: assign_column_def wf_table_def list_all_iff columns_def dest!: set_zip_leftD)
  show "distinct (columns ?t)"
    using assms(2) by (simp add: assign_column_columns)
  show "\<forall>r' \<in> set (rows ?t). \<exists>p \<in> set (zip (rows t) vs).
           row_map ?t r' = (row_map t (fst p))(c \<mapsto> snd p)"
  proof (cases "c \<in> set (columns t)")
    case True
    have cols: "columns ?t = columns t"
      using True by (simp add: assign_column_columns)
    show ?thesis
    proof
      fix r' assume "r' \<in> set (rows ?t)"
      with True obtain r v where rv: "(r, v) \<in> set (zip (rows t) vs)"
        and r': "r' = map (\<lambda>(l, x). if l = c then v else x) (zip (columns t) r)"
        by (auto simp: assign_column_def)
      from rv have "length r = length (columns t)" by (auto dest: set_zip_leftD intro: len)
      from map_of_zip_update[OF this True, of v] r' cols
      have "row_map ?t r' = (row_map t r)(c \<mapsto> v)"
        by (simp add: row_map_def row_series_def)
      with rv show "\<exists>p \<in> set (zip (rows t) vs). row_map ?t r' = (row_map t (fst p))(c \<mapsto> snd p)"
        by force
    qed
  next
    case False
    have cols: "columns ?t = columns t @ [c]"
      using False by (simp add: assign_column_columns)
    show ?thesis
    proof
      fix r' assume "r' \<in> set (rows ?t)"
      with False obtain r v where rv: "(r, v) \<in> set (zip (rows t) vs)" and r': "r' = r @ [v]"
        by (auto simp: assign_column_def)
      from rv have l: "length r = length (columns t)" by (auto dest: set_zip_leftD intro: len)
      have none: "map_of (zip (columns t) r) k = None" if "k \<notin> set (columns t)" for k
        using that l by (simp add: map_of_zip_is_None)
      have "row_map ?t r' k = ((row_map t r)(c \<mapsto> v)) k" for k
      proof (cases "k = c")
        case True
        with l r' cols show ?thesis
          by (simp add: row_map_def row_series_def map_add_def none[OF False])
      next
        case kc: False
        show ?thesis
        proof (cases "k \<in> set (columns t)")
          case True
          with kc l r' cols show ?thesis
            by (simp add: row_map_def row_series_def map_add_def split: option.splits)
        next
          case False
          with kc l r' cols show ?thesis
            by (simp add: row_map_def row_series_def map_add_def none[OF False])
        qed
      qed
      then have "row_map ?t r' = (row_map t r)(c \<mapsto> v)" by (rule ext)
      with rv show "\<exists>p \<in> set (zip (rows t) vs). row_map ?t r' = (row_map t (fst p))(c \<mapsto> snd p)"
        by force
    qed
  qed
qed

lemma column_of_row_map:
  assumes "column_of t c = Inr (d, vs)" and "wf_table t" and "distinct (columns t)"
  shows "length vs = length (rows t)"
    and "\<forall>p \<in> set (zip (rows t) vs). row_map t (fst p) c = Some (snd p)"
proof -
  from assms(1) have cv: "column_values t c = Inr vs"
    by (auto simp: column_of_def bindR_def split: list.splits sum.splits)
  from sequenceR_Inr_D[OF cv[unfolded column_values_def]]
  have len: "length vs = length (rows t)"
    and get: "\<forall>p \<in> set (zip (rows t) vs). series_get (row_series t (fst p)) c = Inr (snd p)"
    by auto
  show "length vs = length (rows t)" by (rule len)
  show "\<forall>p \<in> set (zip (rows t) vs). row_map t (fst p) c = Some (snd p)"
  proof
    fix p assume p: "p \<in> set (zip (rows t) vs)"
    then have "fst p \<in> set (rows t)" by (rule zip_fst_in)
    from row_series_keys[OF assms(2) this] assms(3)
    have "distinct (map fst (row_series t (fst p)))" by simp
    from series_get_map_of[OF this, of c] get p
    show "row_map t (fst p) c = Some (snd p)"
      by (auto simp: row_map_def split: option.splits)
  qed
qed

lemma derive_column:
  assumes "bindR (column_of g c0) (\<lambda>(d, vs). Inr (assign_column g c ObjectDtype (map f vs))) = Inr g'"
    and "wf_table g" and "distinct (columns g)"
  shows "wf_table g'" and "distinct (columns g')"
    and "\<forall>r' \<in> set (rows g'). \<exists>r \<in> set (rows g). \<exists>v.
           row_map g r c0 = Some v \<and> row_map g' r' = (row_map g r)(c \<mapsto> f v)"
proof -
  from assms(1) obtain d vs where col: "column_of g c0 = Inr (d, vs)"
    and g': "g' = assign_column g c ObjectDtype (map f vs)"
    by (auto simp: bindR_def split: sum.splits)
  note cm = column_of_row_map[OF col assms(2,3)]
  have len: "length (map f vs) = length (rows g)" using cm(1) by simp
  note ac = assign_column_rows[OF assms(2,3) len, of c ObjectDtype]
  show "wf_table g'" "distinct (columns g')" using ac(1,2) g' by simp_all
  show "\<forall>r' \<in> set (rows g'). \<exists>r \<in> set (rows g). \<exists>v.
           row_map g r c0 = Some v \<and> row_map g' r' = (row_map g r)(c \<mapsto> f v)"
  proof
    fix r' assume "r' \<in> set (rows g')"
    with ac(3) g' obtain p where p: "p \<in> set (zip (rows g) (map f vs))"
      and rm: "row_map g' r' = (row_map g (fst p))(c \<mapsto> snd p)" by blast
    from p obtain r v where rv: "(r, v) \<in> set (zip (rows g) vs)" and pp: "p = (r, f v)"
      by (auto simp: zip_map2)
    from cm(2) rv have "row_map g r c0 = Some v" by force
    moreover from rv have "r \<in> set (rows g)" by (auto dest: set_zip_leftD)
    ultimately show "\<exists>r \<in> set (rows g). \<exists>v.
           row_map g r c0 = Some v \<and> row_map g' r' = (row_map g r)(c \<mapsto> f v)"
      using rm pp by auto
  qed
qed

section \<open>Results and points\<close>

lemma calculate_result_numeric:
  assumes "series_get row ''home_score'' = Inr (VInt h)"
    and "series_get row ''away_score'' = Inr (VInt a)"
  shows "calculate_result row =
           Inr (VStr (if h > a then ''win'' else if h < a then ''loss'' else ''draw''))"
  using assms by (simp add: calculate_result_def bindR_def val_lt_def)

lemma example_game_run:
  "run_steps example_game [set_result_home, set_points_home, set_result_away, set_points_away] =
     (example_game_enriched, None)"
  by code_simp

text \<open>
  C2. For a game row with numeric scores \<open>calculate_result\<close> returns \<open>win\<close> when the home
  score is greater, \<open>loss\<close> when it is smaller and \<open>draw\<close> otherwise; \<open>calculate_points\<close>
  gives 3 for \<open>win\<close>, 1 for \<open>draw\<close> and 0 for \<open>loss\<close>; and the four statements of lines 353
  to 356, run on a game with home score 2 and away score 1, add \<open>result_home = win\<close>,
  \<open>points_home = 3\<close>, \<open>result_away = loss\<close> and \<open>points_away = 0\<close>.
\<close>

theorem calculate_result_points_spec:
  "(series_get row ''home_score'' = Inr (VInt h) \<and> series_get row ''away_score'' = Inr (VInt a) \<longrightarrow>
      calculate_result row =
        Inr (VStr (if h > a then ''win'' else if h < a then ''loss'' else ''draw''))) \<and>
   calculate_points (VStr ''win'') = 3 \<and> calculate_points (VStr ''draw'') = 1 \<and>
   calculate_points (VStr ''loss'') = 0 \<and>
   run_steps example_game [set_result_home, set_points_home, set_result_away, set_points_away] =
     (frame [''home_team_id'', ''away_team_id'', ''home_score'', ''away_score'',
             ''result_home'', ''points_home'', ''result_away'', ''points_away'']
        [[VInt 1, VInt 2, VInt 2, VInt 1, VStr ''win'', VInt 3, VStr ''loss'', VInt 0]], None)"
proof -
  have "calculate_points (VStr ''win'') = 3" "calculate_points (VStr ''draw'') = 1"
    "calculate_points (VStr ''loss'') = 0"
    by (simp_all add: calculate_points_def)
  then show ?thesis
    using calculate_result_numeric example_game_run[unfolded example_game_enriched_def] by blast
qed

theorem calculate_result_points_spec_witness:
  "series_get [(''home_score'', VInt 0), (''away_score'', VInt 4)] ''home_score'' = Inr (VInt 0) \<and>
   series_get [(''home_score'', VInt 0), (''away_score'', VInt 4)] ''away_score'' = Inr (VInt 4) \<and>
   calculate_result [(''home_score'', VInt 0), (''away_score'', VInt 4)] = Inr (VStr ''loss'')"
  using calculate_result_points_spec [of "[(''home_score'', VInt 0), (''away_score'', VInt 4)]" 0 4]
  by (simp add: series_get_def)

lemma calculate_result_values:
  "calculate_result row = Inr v \<Longrightarrow> v = VStr ''win'' \<or> v = VStr ''loss'' \<or> v = VStr ''draw''"
  by (auto simp: calculate_result_def bindR_def split: sum.splits if_splits)

lemma set_result_home_rows:
  assumes "set_result_home g = Inr g'" and "wf_table g" and "distinct (columns g)"
  shows "wf_table g'" and "distinct (columns g')"
    and "\<forall>r' \<in> set (rows g'). \<exists>r \<in> set (rows g). \<exists>v.
           calculate_result (row_series g r) = Inr v \<and>
           row_map g' r' = (row_map g r)(''result_home'' \<mapsto> v)"
proof -
  from assms(1) obtain res where
    sq: "sequenceR (map (\<lambda>r. calculate_result (row_series g r)) (rows g)) = Inr res"
    and g': "g' = assign_column g ''result_home'' ObjectDtype res"
    by (auto simp: set_result_home_def bindR_def split: sum.splits)
  from sequenceR_Inr_D[OF sq] have len: "length res = length (rows g)"
    and calc: "\<forall>p \<in> set (zip (rows g) res). calculate_result (row_series g (fst p)) = Inr (snd p)"
    by auto
  note ac = assign_column_rows[OF assms(2,3) len, of "''result_home''" ObjectDtype]
  show "wf_table g'" "distinct (columns g')" using ac(1,2) g' by simp_all
  show "\<forall>r' \<in> set (rows g'). \<exists>r \<in> set (rows g). \<exists>v.
           calculate_result (row_series g r) = Inr v \<and>
           row_map g' r' = (row_map g r)(''result_home'' \<mapsto> v)"
  proof
    fix r' assume "r' \<in> set (rows g')"
    with ac(3) g' obtain p where p: "p \<in> set (zip (rows g) res)"
      and rm: "row_map g' r' = (row_map g (fst p))(''result_home'' \<mapsto> snd p)" by blast
    from p have "fst p \<in> set (rows g)" by (rule zip_fst_in)
    with calc p rm show "\<exists>r \<in> set (rows g). \<exists>v.
           calculate_result (row_series g r) = Inr v \<and>
           row_map g' r' = (row_map g r)(''result_home'' \<mapsto> v)"
      by blast
  qed
qed

lemma run_steps_four:
  assumes "run_steps x [f1, f2, f3, f4] = (y, None)"
  shows "\<exists>x1 x2 x3. f1 x = Inr x1 \<and> f2 x1 = Inr x2 \<and> f3 x2 = Inr x3 \<and> f4 x3 = Inr y"
  using assms by (auto split: sum.splits)

lemma complementary_points:
  assumes "v = VStr ''win'' \<or> v = VStr ''loss'' \<or> v = VStr ''draw''"
  shows "\<exists>rh ra. v = VStr rh \<and> result_away_of v = VStr ra \<and>
           (rh = ''win'' \<longrightarrow> ra = ''loss'') \<and> (rh = ''loss'' \<longrightarrow> ra = ''win'') \<and>
           (rh \<noteq> ''win'' \<and> rh \<noteq> ''loss'' \<longrightarrow> rh = ''draw'' \<and> ra = ''draw'') \<and>
           calculate_points v + calculate_points (result_away_of v) =
             (if rh = ''draw'' \<and> ra = ''draw'' then 2 else 3)"
  using assms by (auto simp: result_away_of_def calculate_points_def)

text \<open>
  C1. After the four statements of lines 353 to 356 have run on a games table, every row
  of the result has complementary results: \<open>result_away\<close> is \<open>loss\<close> when \<open>result_home\<close> is
  \<open>win\<close>, \<open>win\<close> when it is \<open>loss\<close>, and otherwise both are \<open>draw\<close>; and
  \<open>points_home + points_away\<close> is 2 when both are \<open>draw\<close> and 3 otherwise.
\<close>

theorem results_complementary:
  assumes "wf_table games" and "distinct (columns games)"
    and "run_steps games [set_result_home, set_points_home, set_result_away, set_points_away] =
           (games', None)"
  shows "\<forall>r \<in> set (rows games'). \<exists>rh ra ph pa.
           cell games' r ''result_home'' = VStr rh \<and> cell games' r ''result_away'' = VStr ra \<and>
           cell games' r ''points_home'' = VInt ph \<and> cell games' r ''points_away'' = VInt pa \<and>
           (rh = ''win'' \<longrightarrow> ra = ''loss'') \<and> (rh = ''loss'' \<longrightarrow> ra = ''win'') \<and>
           (rh \<noteq> ''win'' \<and> rh \<noteq> ''loss'' \<longrightarrow> rh = ''draw'' \<and> ra = ''draw'') \<and>
           ph + pa = (if rh = ''draw'' \<and> ra = ''draw'' then 2 else 3)"
proof
  fix r4 assume r4: "r4 \<in> set (rows games')"
  from run_steps_four[OF assms(3)] obtain g1 g2 g3 where
    s1: "set_result_home games = Inr g1" and s2: "set_points_home g1 = Inr g2"
    and s3: "set_result_away g2 = Inr g3" and s4: "set_points_away g3 = Inr games'"
    by blast
  note a1 = set_result_home_rows[OF s1 assms(1,2)]
  note a2 = derive_column[OF s2[unfolded set_points_home_def] a1(1,2)]
  note a3 = derive_column[OF s3[unfolded set_result_away_def] a2(1,2)]
  note a4 = derive_column[OF s4[unfolded set_points_away_def] a3(1,2)]
  from a4(3) r4 obtain r3 v3 where r3: "r3 \<in> set (rows g3)"
    and v3: "row_map g3 r3 ''result_away'' = Some v3"
    and m4: "row_map games' r4 = (row_map g3 r3)(''points_away'' \<mapsto> VInt (calculate_points v3))"
    by blast
  from a3(3) r3 obtain r2 v2 where r2: "r2 \<in> set (rows g2)"
    and v2: "row_map g2 r2 ''result_home'' = Some v2"
    and m3: "row_map g3 r3 = (row_map g2 r2)(''result_away'' \<mapsto> result_away_of v2)"
    by blast
  from a2(3) r2 obtain r1 v1 where r1: "r1 \<in> set (rows g1)"
    and v1: "row_map g1 r1 ''result_home'' = Some v1"
    and m2: "row_map g2 r2 = (row_map g1 r1)(''points_home'' \<mapsto> VInt (calculate_points v1))"
    by blast
  from a1(3) r1 obtain r v where calc: "calculate_result (row_series games r) = Inr v"
    and m1: "row_map g1 r1 = (row_map games r)(''result_home'' \<mapsto> v)"
    by blast
  from v1 m1 have "v1 = v" by simp
  with v1 v2 m2 have "v2 = v" by simp
  with v3 m3 have "v3 = result_away_of v" by simp
  have c1: "row_map games' r4 ''result_home'' = Some v"
    using m4 m3 m2 v1 \<open>v1 = v\<close> by simp
  have c2: "row_map games' r4 ''result_away'' = Some (result_away_of v)"
    using m4 m3 \<open>v2 = v\<close> by simp
  have c3: "row_map games' r4 ''points_home'' = Some (VInt (calculate_points v))"
    using m4 m3 m2 \<open>v1 = v\<close> by simp
  have c4: "row_map games' r4 ''points_away'' = Some (VInt (calculate_points (result_away_of v)))"
    using m4 \<open>v3 = result_away_of v\<close> by simp
  note cells = cell_row_map(1)[OF a4(1,2) r4]
  from complementary_points[OF calculate_result_values[OF calc]] obtain rh ra where
    rh: "v = VStr rh" and ra: "result_away_of v = VStr ra"
    and compl: "(rh = ''win'' \<longrightarrow> ra = ''loss'') \<and> (rh = ''loss'' \<longrightarrow> ra = ''win'') \<and>
           (rh \<noteq> ''win'' \<and> rh \<noteq> ''loss'' \<longrightarrow> rh = ''draw'' \<and> ra = ''draw'') \<and>
           calculate_points v + calculate_points (result_away_of v) =
             (if rh = ''draw'' \<and> ra = ''draw'' then 2 else 3)"
    by blast
  have "cell games' r4 ''result_home'' = VStr rh" using cells[OF c1] rh by simp
  moreover have "cell games' r4 ''result_away'' = VStr ra" using cells[OF c2] ra by simp
  moreover have "cell games' r4 ''points_home'' = VInt (calculate_points v)"
    using cells[OF c3] by simp
  moreover have "cell games' r4 ''points_away'' = VInt (calculate_points (result_away_of v))"
    using cells[OF c4] by simp
  ultimately show "\<exists>rh ra ph pa.
           cell games' r4 ''result_home'' = VStr rh \<and> cell games' r4 ''result_away'' = VStr ra \<and>
           cell games' r4 ''points_home'' = VInt ph \<and> cell games' r4 ''points_away'' = VInt pa \<and>
           (rh = ''win'' \<longrightarrow> ra = ''loss'') \<and> (rh = ''loss'' \<longrightarrow> ra = ''win'') \<and>
           (rh \<noteq> ''win'' \<and> rh \<noteq> ''loss'' \<longrightarrow> rh = ''draw'' \<and> ra = ''draw'') \<and>
           ph + pa = (if rh = ''draw'' \<and> ra = ''draw'' then 2 else 3)"
    using compl by blast
qed

theorem results_complementary_witness:
  "wf_table example_game \<and> distinct (columns example_game) \<and>
   run_steps example_game [set_result_home, set_points_home, set_result_away, set_points_away] =
     (example_game_enriched, None) \<and>
   cell example_game_enriched (hd (rows example_game_enriched)) ''result_home'' = VStr ''win'' \<and>
   cell example_game_enriched (hd (rows example_game_enriched)) ''result_away'' = VStr ''loss'' \<and>
   cell example_game_enriched (hd (rows example_game_enriched)) ''points_home'' = VInt 3 \<and>
   cell example_game_enriched (hd (rows example_game_enriched)) ''points_away'' = VInt 0"
proof -
  have h1: "wf_table example_game" by code_simp
  have h2: "distinct (columns example_game)" by code_simp
  note h3 = example_game_run
  have cells:
    "cell example_game_enriched (hd (rows example_game_enriched)) ''result_home'' = VStr ''win''"
    "cell example_game_enriched (hd (rows example_game_enriched)) ''result_away'' = VStr ''loss''"
    "cell example_game_enriched (hd (rows example_game_enriched)) ''points_home'' = VInt 3"
    "cell example_game_enriched (hd (rows example_game_enriched)) ''points_away'' = VInt 0"
    by code_simp+
  from results_complementary[OF h1 h2 h3] h1 h2 h3 cells show ?thesis by simp
qed

section \<open>Team statistics\<close>

text \<open>
  C3. The claim is that no label of the table \<open>merge_team_statistics\<close> returns ends with
  \<open>_dup\<close>. Here the expected-passes table repeats the \<open>count_games\<close> label that the
  expected-goals table brought in: the third merge names the incoming column
  \<open>count_games_dup\<close>, the list of labels to drop is taken from the table as it was before
  that merge, and the suffixed column stays in the result.
\<close>

theorem merge_team_statistics_leaves_dup:
  "merge_team_statistics stats_client one_team =
     (frame [''team_id'', ''team_name'', ''minutes'', ''count_games'', ''count_games_dup'',
             ''attempted_passes_for'', ''avg_vertical_distance_diff'']
        [[VStr ''T1'', VStr ''Team A'', VInt 900, VInt 10, VInt 10, VInt 4000, VInt 0]], []) \<and>
   endswith ''count_games_dup'' DUPLICATE_SUFFIX"
  by code_simp

text \<open>
  C4, as the claim states it: when one of the three requests fails, the other two sources
  are still merged and the column \<open>avg_vertical_distance_diff\<close> exists. With the
  expected-goals request failing, the returned table has neither the goals-added column
  \<open>minutes\<close> nor \<open>avg_vertical_distance_diff\<close>.
\<close>

theorem merge_team_statistics_one_source_down_counterexample:
  "''avg_vertical_distance_diff'' \<notin>
     set (columns (fst (merge_team_statistics stats_client_xgoals_down one_team))) \<and>
   ''minutes'' \<notin> set (columns (fst (merge_team_statistics stats_client_xgoals_down one_team)))"
  by code_simp

text \<open>
  C4, amended. The three requests are made before any merge, inside the one \<open>try\<close> of
  the method. When any of them fails, \<open>merge_team_statistics\<close> does not raise, logs one
  error, and returns the teams table it was given, unchanged: all rows are kept, no
  source is merged and no column is added.
\<close>

theorem merge_team_statistics_fetch_failure:
  assumes "get_team_goals_added self COMPETITION = Inl e1 \<or>
           get_team_xgoals self COMPETITION = Inl e2 \<or>
           get_team_xpass self COMPETITION = Inl e3"
  shows "\<exists>e. merge_team_statistics self teams =
               (teams, [(''Error merging team statistics for '' @ COMPETITION, e)])"
  using assms
  by (auto simp: merge_team_statistics_def bindR_def split: sum.splits)

theorem merge_team_statistics_fetch_failure_witness:
  "get_team_xgoals stats_client_xgoals_down COMPETITION = Inl (ClientError ''timeout'') \<and>
   (\<exists>e. merge_team_statistics stats_client_xgoals_down one_team =
           (one_team, [(''Error merging team statistics for '' @ COMPETITION, e)]))"
  using merge_team_statistics_fetch_failure
          [of stats_client_xgoals_down undefined "ClientError ''timeout''" undefined one_team]
  by (simp add: stats_client_xgoals_down_def)

section \<open>Games\<close>

text \<open>
  A left join keeps every left row: each row of the left table is the beginning of a row
  of the result. This holds for the stadium and the referee join.
\<close>

lemma column_of_length:
  assumes "column_of t c = Inr (d, vs)"
  shows "length vs = length (rows t)"
proof -
  from assms have "column_values t c = Inr vs"
    by (auto simp: column_of_def bindR_def split: list.splits sum.splits)
  from sequenceR_Inr_D[OF this[unfolded column_values_def]] show ?thesis by simp
qed

lemma join_row_left_keeps:
  "\<exists>r \<in> set (join_row LeftJoin l ps n). take (length l) r = l"
  by (cases ps) (auto simp: join_row_def)

lemma merged_rows_left_keeps:
  assumes "length lkeys = length (rows left)" and "l \<in> set (rows left)"
  shows "\<exists>r \<in> set (merged_rows LeftJoin left right left_on right_on lkeys rkeys).
           take (length l) r = l"
proof -
  from assms obtain k where lk: "(l, k) \<in> set (zip (rows left) lkeys)"
    by (metis in_set_impl_in_set_zip1)
  from join_row_left_keeps[of l "partners right left_on right_on rkeys k"
      "length (right_schema right left_on right_on)"]
  obtain r where r: "r \<in> set (join_row LeftJoin l (partners right left_on right_on rkeys k)
                        (length (right_schema right left_on right_on)))"
    and t: "take (length l) r = l" by blast
  from lk r have "r \<in> set (merged_rows LeftJoin left right left_on right_on lkeys rkeys)"
    by (force simp: merged_rows_def)
  with t show ?thesis by blast
qed

lemma left_join_keeps_rows:
  assumes "merge left right LeftJoin left_on right_on suffixes = Inr merged"
    and "l \<in> set (rows left)"
  shows "\<exists>r \<in> set (rows merged). take (length l) r = l"
proof -
  from assms(1) obtain ld lkeys rkeys where
    lk: "column_of left left_on = Inr (ld, lkeys)"
    and rw: "rows merged = merged_rows LeftJoin left right left_on right_on lkeys rkeys"
    by (auto simp: merge_def bindR_def split: sum.splits if_splits)
  from merged_rows_left_keeps[OF column_of_length[OF lk] assms(2)] rw show ?thesis by simp
qed

lemma add_stadium_names_keeps_rows:
  assumes "add_stadium_names games stadium = Inr games'" and "l \<in> set (rows games)"
  shows "\<exists>r \<in> set (rows games'). take (length l) r = l"
  using assms by (auto simp: add_stadium_names_def bindR_def split: sum.splits
      dest: left_join_keeps_rows)

lemma add_referee_names_keeps_rows:
  assumes "add_referee_names games refs = Inr games'" and "l \<in> set (rows games)"
  shows "\<exists>r \<in> set (rows games'). take (length l) r = l"
  using assms by (auto simp: add_referee_names_def bindR_def split: sum.splits
      dest: left_join_keeps_rows)

text \<open>
  C7. The claim is that every join of the game enrichment keeps a game whose reference
  does not resolve. The stadium and referee joins are left joins and do; the four
  joins of lines 345 to 350 are written without \<open>how\<close> and are inner joins. A game
  whose away team is not in the teams table leaves no row behind, and nothing is
  logged; a game whose stadium is unknown is kept, with a missing stadium name.
\<close>

theorem process_games_drops_unresolved_team:
  "process_games (offline_client\<lparr>get_games := (\<lambda>c. Inr game_unknown_away_team)\<rparr>)
     COMPETITION known_dimensions =
     (Some \<lparr>schema = map (\<lambda>c. (c, ObjectDtype))
              (games_labels @
               [''stadium_name'', ''referee_name'', ''team_id_home'', ''team_name_home'',
                ''team_abbreviation_home'', ''team_id_away'', ''team_name_away'',
                ''team_abbreviation_away'', ''manager_id_home'', ''manager_name_home'',
                ''manager_id_away'', ''manager_name_away'', ''result_home'', ''points_home'',
                ''result_away'', ''points_away'']),
            rows = []\<rparr>, []) \<and>
   map_option rows (fst (process_games
       (offline_client\<lparr>get_games := (\<lambda>c. Inr game_unknown_stadium)\<rparr>)
       COMPETITION known_dimensions)) =
     Some [[VStr ''G2'', VStr ''T1'', VStr ''T1'', VStr ''M1'', VStr ''M1'', VStr ''R1'', VStr ''S9'',
            VInt 0, VInt 0, VNaN, VStr ''Ref One'', VStr ''T1'', VStr ''Team A'', VStr ''TA'',
            VStr ''T1'', VStr ''Team A'', VStr ''TA'', VStr ''M1'', VStr ''Coach One'', VStr ''M1'',
            VStr ''Coach One'', VStr ''draw'', VInt 1, VStr ''draw'', VInt 1]]"
  by code_simp

section \<open>Players\<close>

text \<open>
  C9. The split of lines 317 and 318 is a partition of the player rows: the goalkeepers
  are the rows whose \<open>primary_broad_position\<close> is \<open>GK\<close>, the field players are all other
  rows, those with a missing position among them; no row is in both, every row is in
  one, and each row occurs as often in the two parts together as in the player table.
\<close>

theorem split_players_partition:
  assumes "count_list (columns players) ''primary_broad_position'' = 1"
    and "wf_table players"
  shows "\<exists>field_players goalkeepers.
           split_players players = Inr (field_players, goalkeepers) \<and>
           schema field_players = schema players \<and> schema goalkeepers = schema players \<and>
           rows goalkeepers =
             filter (\<lambda>r. cell players r ''primary_broad_position'' = VStr ''GK'') (rows players) \<and>
           rows field_players =
             filter (\<lambda>r. cell players r ''primary_broad_position'' \<noteq> VStr ''GK'') (rows players) \<and>
           set (rows field_players) \<inter> set (rows goalkeepers) = {} \<and>
           set (rows field_players) \<union> set (rows goalkeepers) = set (rows players) \<and>
           mset (rows field_players) + mset (rows goalkeepers) = mset (rows players)"
proof -
  let ?gk = "\<lambda>r. cell players r ''primary_broad_position'' = VStr ''GK''"
  have split: "split_players players =
      Inr (players\<lparr>rows := filter (\<lambda>r. \<not> ?gk r) (rows players)\<rparr>,
           players\<lparr>rows := filter ?gk (rows players)\<rparr>)"
    by (simp add: split_players_def bindR_def filter_ne_wf[OF assms] filter_eq_wf[OF assms])
  have "mset (filter (\<lambda>r. \<not> ?gk r) (rows players)) + mset (filter ?gk (rows players))
          = mset (rows players)"
    by (induction "rows players") auto
  moreover have "set (filter (\<lambda>r. \<not> ?gk r) (rows players)) \<inter> set (filter ?gk (rows players)) = {}"
    by auto
  moreover have "set (filter (\<lambda>r. \<not> ?gk r) (rows players)) \<union> set (filter ?gk (rows players))
          = set (rows players)"
    by auto
  ultimately show ?thesis using split by simp
qed

theorem split_players_partition_witness:
  "count_list (columns three_players) ''primary_broad_position'' = 1 \<and> wf_table three_players \<and>
   split_players three_players =
     Inr (frame [''player_id'', ''primary_broad_position'']
            [[VStr ''P2'', VStr ''FW''], [VStr ''P3'', VNaN]],
          frame [''player_id'', ''primary_broad_position''] [[VStr ''P1'', VStr ''GK'']])"
proof -
  have h1: "count_list (columns three_players) ''primary_broad_position'' = 1"
    by code_simp
  have h2: "wf_table three_players"
    by code_simp
  have "split_players three_players =
     Inr (frame [''player_id'', ''primary_broad_position'']
            [[VStr ''P2'', VStr ''FW''], [VStr ''P3'', VNaN]],
          frame [''player_id'', ''primary_broad_position''] [[VStr ''P1'', VStr ''GK'']])"
    by code_simp
  with h1 h2 split_players_partition[OF h1 h2] show ?thesis by simp
qed

subsection \<open>Expanding and enriching players\<close>

lemma count_one_member: "count_list xs c = 1 \<Longrightarrow> c \<in> set xs"
  by (metis count_list_0_iff zero_neq_one)

lemma distinct_count_one: "distinct xs \<Longrightarrow> c \<in> set xs \<Longrightarrow> count_list xs c = 1"
  by (induction xs) (auto simp: count_list_0_iff)

lemma cells_where_cell:
  assumes "count_list labels n = 1" and "length r = length labels"
  shows "cells_where (\<lambda>c. c = n) labels r =
           [case series_get (zip labels r) n of Inr v \<Rightarrow> v | Inl e \<Rightarrow> VNaN]"
proof -
  have "map fst (zip labels r) = labels" using assms(2) by simp
  with assms(1) have "count_list (map fst (zip labels r)) n = 1" by simp
  from count_one_filter[OF this] obtain p where "filter (\<lambda>p. fst p = n) (zip labels r) = [p]"
    by blast
  then show ?thesis by (simp add: cells_where_def series_get_def)
qed

lemma select_two_columns:
  assumes "wf_table t" and "count_list (columns t) c1 = 1" and "count_list (columns t) c2 = 1"
  shows "\<exists>d1 d2. select_columns t [c1, c2] =
           Inr \<lparr>schema = [(c1, d1), (c2, d2)],
                rows = map (\<lambda>r. [cell t r c1, cell t r c2]) (rows t)\<rparr>"
proof -
  have mem: "c1 \<in> set (columns t)" "c2 \<in> set (columns t)"
    using assms(2,3) by (auto intro: count_one_member)
  from assms(2,3) have "count_list (map fst (schema t)) c1 = 1" "count_list (map fst (schema t)) c2 = 1"
    by (simp_all add: columns_def)
  from count_one_filter[OF this(1)] count_one_filter[OF this(2)] obtain p1 p2 where
    p1: "filter (\<lambda>p. fst p = c1) (schema t) = [p1]" "fst p1 = c1"
    and p2: "filter (\<lambda>p. fst p = c2) (schema t) = [p2]" "fst p2 = c2" by blast
  have sch: "concat (map (\<lambda>n. cells_where (\<lambda>c. c = n) (columns t) (schema t)) [c1, c2]) =
      [(c1, snd p1), (c2, snd p2)]"
    using p1 p2 by (simp add: columns_def cells_where_schema prod_eq_iff)
  have rws: "map (\<lambda>r. concat (map (\<lambda>n. cells_where (\<lambda>c. c = n) (columns t) r) [c1, c2])) (rows t) =
      map (\<lambda>r. [cell t r c1, cell t r c2]) (rows t)"
  proof (rule map_cong[OF refl])
    fix r assume "r \<in> set (rows t)"
    with assms(1) have l: "length r = length (columns t)"
      by (simp add: wf_table_def list_all_iff columns_def)
    show "concat (map (\<lambda>n. cells_where (\<lambda>c. c = n) (columns t) r) [c1, c2]) =
            [cell t r c1, cell t r c2]"
      by (simp add: cells_where_cell[OF assms(2) l] cells_where_cell[OF assms(3) l]
          cell_def row_series_def)
  qed
  from mem sch rws show ?thesis by (simp add: select_columns_def)
qed

lemma zip_same_snd: "(l, a, b) \<in> set (zip xs (zip ds ds)) \<Longrightarrow> a = b"
  by (metis set_zip_rightD zip_same)

lemma suffix_dups_same: "suffix_dups xs xs = []"
  by (auto simp: suffix_dups_def filter_empty_conv dest: zip_same_snd)

lemma merged_schema_disjoint:
  assumes "set (columns left) \<inter> fst ` set (right_schema right left_on right_on) = {}"
  shows "merged_schema left right left_on right_on suffixes =
           Inr (schema left @ right_schema right left_on right_on)"
proof -
  let ?R = "right_schema right left_on right_on"
  have tr: "filter (\<lambda>c. c \<in> fst ` set ?R) (columns left) = []"
    using assms by (auto simp: filter_empty_conv)
  have "zip (columns left) (map snd (schema left)) = schema left"
    by (simp add: columns_def zip_map_fst_snd)
  then show ?thesis
    by (simp add: merged_schema_def Let_def tr suffix_dups_same zip_map_fst_snd comp_def)
qed

lemma explode_row_two:
  assumes "series_get (zip labels r) c = Inr (VList [a, b])"
  shows "explode_row labels c r =
           [map (\<lambda>(l, x). if l = c then a else x) (zip labels r),
            map (\<lambda>(l, x). if l = c then b else x) (zip labels r)]"
  using assms by (simp add: explode_row_def)

lemma series_get_member:
  assumes "series_get s c = Inr v"
  shows "c \<in> fst ` set s"
proof -
  from assms have "filter (\<lambda>kv. fst kv = c) s \<noteq> []"
    by (auto simp: series_get_def split: list.splits)
  then obtain kv where "kv \<in> set s" "fst kv = c" by (auto simp: filter_empty_conv)
  then show ?thesis by force
qed

lemma partners_of_names:
  assumes "columns N = [k0, n0]" and "n0 \<noteq> k0" and "rows N = map (\<lambda>t. [k t, n t]) ts"
  shows "partners N k0 k0 (map k ts) x = map (\<lambda>t. [n t]) (filter (\<lambda>t. k t = x) ts)"
proof -
  have "map (\<lambda>(r, k'). cells_where (join_keep k0 k0) [k0, n0] r)
          (filter (\<lambda>(r, k'). k' = x) (zip (map (\<lambda>t. [k t, n t]) ts) (map k ts))) =
        map (\<lambda>t. [n t]) (filter (\<lambda>t. k t = x) ts)"
    using assms(2) by (induction ts) (auto simp: cells_where_def join_keep_def)
  then show ?thesis by (simp add: partners_def assms(1,3))
qed

text \<open>
  C8, as the claim states it: the enrichment merges the team name and the team
  abbreviation onto each expanded row. For a player of the teams T1 and T2, and a teams
  table that has an abbreviation column, the enriched player table has the labels
  \<open>player_id\<close>, \<open>team_id\<close> and \<open>team_name\<close> only.
\<close>

theorem expand_player_teams_abbreviation_counterexample:
  "expand_player_teams two_team_player two_teams =
     Inr (frame [''player_id'', ''team_id'', ''team_name'']
            [[VStr ''P1'', VStr ''T1'', VStr ''Team A''], [VStr ''P1'', VStr ''T2'', VStr ''Team B'']]) \<and>
   ''team_abbreviation'' \<in> set (columns two_teams) \<and>
   ''team_abbreviation'' \<notin> set [''player_id'', ''team_id'', ''team_name'']"
  by code_simp

text \<open>
  C8, amended. Expanding a player row whose \<open>team_id\<close> is the list \<open>[a, b]\<close> and enriching
  it (line 297) yields exactly two rows, when each of the two teams has one row in the
  teams table: the first is the player row with \<open>team_id\<close> replaced by \<open>a\<close>, followed by
  the name of team \<open>a\<close>, the second the same with \<open>b\<close>. They are identical except for
  \<open>team_id\<close> and \<open>team_name\<close>. \<open>add_team_names\<close> takes \<open>team_id\<close> and \<open>team_name\<close> from the
  teams table and nothing else: the only column added is \<open>team_name\<close>, and no team
  abbreviation is merged.
\<close>

theorem expand_player_teams_two_teams:
  assumes "wf_table players" and "distinct (columns players)"
    and "''team_name'' \<notin> set (columns players)"
    and "rows players = [r]"
    and "series_get (row_series players r) ''team_id'' = Inr (VList [a, b])"
    and "\<not> is_list a" and "\<not> is_list b"
    and "wf_table teams"
    and "count_list (columns teams) ''team_id'' = 1"
    and "count_list (columns teams) ''team_name'' = 1"
    and "\<not> list_ex (\<lambda>t. is_list (cell teams t ''team_id'')) (rows teams)"
    and "filter (\<lambda>t. cell teams t ''team_id'' = a) (rows teams) = [ta]"
    and "filter (\<lambda>t. cell teams t ''team_id'' = b) (rows teams) = [tb]"
  shows "\<exists>d. expand_player_teams players teams =
           Inr \<lparr>schema = schema players @ [(''team_name'', d)],
                rows = [map (\<lambda>(l, x). if l = ''team_id'' then a else x) (row_series players r)
                          @ [cell teams ta ''team_name''],
                        map (\<lambda>(l, x). if l = ''team_id'' then b else x) (row_series players r)
                          @ [cell teams tb ''team_name'']]\<rparr>"
proof -
  let ?cols = "columns players"
  let ?ua = "map (\<lambda>(l, x). if l = ''team_id'' then a else x) (row_series players r)"
  let ?ub = "map (\<lambda>(l, x). if l = ''team_id'' then b else x) (row_series players r)"
  let ?k = "\<lambda>t. cell teams t ''team_id''"
  let ?n = "\<lambda>t. cell teams t ''team_name''"
  define E where "E = players\<lparr>rows := [?ua, ?ub]\<rparr>"
  have lr: "length r = length ?cols"
    using assms(1,4) by (simp add: wf_table_def columns_def)
  have tid: "''team_id'' \<in> set ?cols"
    using series_get_member[OF assms(5)] lr by (auto simp: row_series_def dest: set_zip_leftD)
  have cnt: "count_list ?cols ''team_id'' = 1" by (rule distinct_count_one[OF assms(2) tid])
  \<comment> \<open>the expansion\<close>
  have ex: "explode players ''team_id'' = Inr E"
    using assms(2,4) tid explode_row_two[OF assms(5)[unfolded row_series_def]]
    by (simp add: explode_def row_series_def E_def)
  have E: "columns E = ?cols" "schema E = schema players" "rows E = [?ua, ?ub]"
    by (simp_all add: columns_def E_def)
  have wfE: "wf_table E" using lr by (simp add: wf_table_def row_series_def columns_def E_def)
  have dE: "distinct (columns E)" using assms(2) E(1) by simp
  have rma: "row_map E ?ua ''team_id'' = Some a" and rmb: "row_map E ?ub ''team_id'' = Some b"
    using map_of_zip_update[OF lr tid] E(1) by (simp_all add: row_map_def row_series_def)
  have ca: "cell E ?ua ''team_id'' = a" by (rule cell_row_map(1)[OF wfE dE _ rma]) (simp add: E)
  have cb: "cell E ?ub ''team_id'' = b" by (rule cell_row_map(1)[OF wfE dE _ rmb]) (simp add: E)
  from column_of_wf[OF cnt[folded E(1)] wfE] ca cb obtain dk where
    colE: "column_of E ''team_id'' = Inr (dk, [a, b])" by (auto simp: E(3))
  have nolist: "\<not> has_list_values E TEAM_ID"
    using colE assms(6,7) by (simp add: has_list_values_def TEAM_ID_def)
  \<comment> \<open>the two columns taken from the teams table\<close>
  from select_two_columns[OF assms(8,9,10)] obtain d1 d2 where
    sel: "select_columns teams [''team_id'', ''team_name''] =
            Inr \<lparr>schema = [(''team_id'', d1), (''team_name'', d2)],
                 rows = map (\<lambda>t. [?k t, ?n t]) (rows teams)\<rparr>" by blast
  define N where "N = \<lparr>schema = [(''team_id'', d1), (''team_name'', d2)],
             rows = map (\<lambda>t. [?k t, ?n t]) (rows teams)\<rparr>"
  have N: "columns N = [''team_id'', ''team_name'']"
    "schema N = [(''team_id'', d1), (''team_name'', d2)]"
    "rows N = map (\<lambda>t. [?k t, ?n t]) (rows teams)"
    by (simp_all add: N_def columns_def)
  have colN: "column_of N ''team_id'' = Inr (d1, map ?k (rows teams))"
  proof -
    have "column_values N ''team_id'' = Inr (map ?k (rows teams))"
      unfolding column_values_def
      by (simp add: comp_def row_series_def N series_get_def sequenceR_all_Inr[where f = ?k])
    then show ?thesis by (simp add: column_of_def bindR_def N)
  qed
  have keys: "\<not> list_ex is_list ([a, b] @ map ?k (rows teams))"
    using assms(6,7,11) by (auto simp: list_ex_iff)
  \<comment> \<open>the join\<close>
  have rs: "right_schema N ''team_id'' ''team_id'' = [(''team_name'', d2)]"
    by (simp add: right_schema_def cells_where_def join_keep_def N)
  have ms: "merged_schema E N ''team_id'' ''team_id'' (''_x'', ''_y'') =
              Inr (schema players @ [(''team_name'', d2)])"
    using merged_schema_disjoint[of E N "''team_id''" "''team_id''" "(''_x'', ''_y'')"] assms(3)
    by (simp add: rs E)
  have pa: "partners N ''team_id'' ''team_id'' (map ?k (rows teams)) a = [[?n ta]]"
    by (simp add: partners_of_names[OF N(1) _ N(3)] assms(12))
  have pb: "partners N ''team_id'' ''team_id'' (map ?k (rows teams)) b = [[?n tb]]"
    by (simp add: partners_of_names[OF N(1) _ N(3)] assms(13))
  have mr: "merged_rows LeftJoin E N ''team_id'' ''team_id'' [a, b] (map ?k (rows teams)) =
              [?ua @ [?n ta], ?ub @ [?n tb]]"
    by (simp add: merged_rows_def E(3) pa pb join_row_def)
  have mg: "merge E N LeftJoin ''team_id'' ''team_id'' (''_x'', ''_y'') =
      Inr \<lparr>schema = schema players @ [(''team_name'', d2)],
           rows = [?ua @ [?n ta], ?ub @ [?n tb]]\<rparr>"
    using keys by (simp add: merge_def colN colE bindR_def ms mr)
  show ?thesis
    using ex nolist sel[folded N_def] mg
    by (simp add: expand_player_teams_def add_team_names_def bindR_def TEAM_ID_def)
qed

theorem expand_player_teams_two_teams_witness:
  "wf_table two_team_player \<and> distinct (columns two_team_player) \<and>
   ''team_name'' \<notin> set (columns two_team_player) \<and>
   rows two_team_player = [[VStr ''P1'', VList [VStr ''T1'', VStr ''T2'']]] \<and>
   series_get (row_series two_team_player [VStr ''P1'', VList [VStr ''T1'', VStr ''T2'']]) ''team_id'' =
     Inr (VList [VStr ''T1'', VStr ''T2'']) \<and>
   wf_table two_teams \<and> count_list (columns two_teams) ''team_id'' = 1 \<and>
   count_list (columns two_teams) ''team_name'' = 1 \<and>
   \<not> list_ex (\<lambda>t. is_list (cell two_teams t ''team_id'')) (rows two_teams) \<and>
   filter (\<lambda>t. cell two_teams t ''team_id'' = VStr ''T1'') (rows two_teams) =
     [[VStr ''T1'', VStr ''Team A'', VStr ''TA'']] \<and>
   filter (\<lambda>t. cell two_teams t ''team_id'' = VStr ''T2'') (rows two_teams) =
     [[VStr ''T2'', VStr ''Team B'', VStr ''TB'']] \<and>
   (\<exists>d. expand_player_teams two_team_player two_teams =
      Inr \<lparr>schema = schema two_team_player @ [(''team_name'', d)],
           rows = [[VStr ''P1'', VStr ''T1'', VStr ''Team A''],
                   [VStr ''P1'', VStr ''T2'', VStr ''Team B'']]\<rparr>)"
proof -
  let ?r = "[VStr ''P1'', VList [VStr ''T1'', VStr ''T2'']]"
  have h1: "wf_table two_team_player" by code_simp
  have h2: "distinct (columns two_team_player)" by code_simp
  have h3: "''team_name'' \<notin> set (columns two_team_player)" by code_simp
  have h4: "rows two_team_player = [?r]" by code_simp
  have h5: "series_get (row_series two_team_player ?r) ''team_id'' =
              Inr (VList [VStr ''T1'', VStr ''T2''])" by code_simp
  have h6: "\<not> is_list (VStr ''T1'')" and h7: "\<not> is_list (VStr ''T2'')" by simp_all
  have h8: "wf_table two_teams" by code_simp
  have h9: "count_list (columns two_teams) ''team_id'' = 1" by code_simp
  have h10: "count_list (columns two_teams) ''team_name'' = 1" by code_simp
  have h11: "\<not> list_ex (\<lambda>t. is_list (cell two_teams t ''team_id'')) (rows two_teams)"
    by code_simp
  have h12: "filter (\<lambda>t. cell two_teams t ''team_id'' = VStr ''T1'') (rows two_teams) =
               [[VStr ''T1'', VStr ''Team A'', VStr ''TA'']]" by code_simp
  have h13: "filter (\<lambda>t. cell two_teams t ''team_id'' = VStr ''T2'') (rows two_teams) =
               [[VStr ''T2'', VStr ''Team B'', VStr ''TB'']]" by code_simp
  have r1: "map (\<lambda>(l, x). if l = ''team_id'' then VStr ''T1'' else x) (row_series two_team_player ?r)
              @ [cell two_teams [VStr ''T1'', VStr ''Team A'', VStr ''TA''] ''team_name''] =
            [VStr ''P1'', VStr ''T1'', VStr ''Team A'']" by code_simp
  have r2: "map (\<lambda>(l, x). if l = ''team_id'' then VStr ''T2'' else x) (row_series two_team_player ?r)
              @ [cell two_teams [VStr ''T2'', VStr ''Team B'', VStr ''TB''] ''team_name''] =
            [VStr ''P1'', VStr ''T2'', VStr ''Team B'']" by code_simp
  from expand_player_teams_two_teams[OF h1 h2 h3 h4 h5 h6 h7 h8 h9 h10 h11 h12 h13]
  have "\<exists>d. expand_player_teams two_team_player two_teams =
      Inr \<lparr>schema = schema two_team_player @ [(''team_name'', d)],
           rows = [[VStr ''P1'', VStr ''T1'', VStr ''Team A''],
                   [VStr ''P1'', VStr ''T2'', VStr ''Team B'']]\<rparr>"
    unfolding r1 r2 .
  with h1 h2 h3 h4 h5 h8 h9 h10 h11 h12 h13 show ?thesis by blast
qed

section \<open>The whole routine\<close>

subsection \<open>Exceptions that reach the outer handler\<close>

lemma bindL_fails: "(\<And>x. \<exists>e. fst (f x) = Inl e) \<Longrightarrow> \<exists>e. fst (bindL m f) = Inl e"
proof -
  assume f: "\<And>x. \<exists>e. fst (f x) = Inl e"
  obtain r l where m: "m = (r, l)" by (cases m)
  show ?thesis
  proof (cases r)
    case (Inl e)
    with m show ?thesis by (simp add: bindL_def)
  next
    case (Inr x)
    from f[of x] obtain e where "fst (f x) = Inl e" by blast
    with m Inr show ?thesis by (cases "f x") (simp add: bindL_def)
  qed
qed

lemma bindL_guarded_fails:
  "\<exists>e. fst (f (fst p)) = Inl e \<Longrightarrow> \<exists>e. fst (bindL (guarded p) f) = Inl e"
  by (cases "f (fst p)") (auto simp: bindL_def guarded_def)

lemma bindL_unguarded_Inl: "fst (bindL (unguarded (Inl e)) f) = Inl e"
  by (simp add: bindL_def unguarded_def)

lemma fetch_data_empty:
  "\<exists>e. fst (fetch_body self COMPETITION) = Inl e \<Longrightarrow> fst (fetch_data self competition) = Map.empty"
  by (cases "fetch_body self COMPETITION") (auto simp: fetch_data_def)

lemma column_of_DataFrame: "column_of DataFrame c = Inl (KeyError [c])"
  by (simp add: column_of_def DataFrame_def)

lemma astype_category_DataFrame: "astype_category DataFrame c = Inl (KeyError [c])"
  by (simp add: astype_category_def column_of_DataFrame bindR_def)

lemma merge_DataFrame_left: "\<exists>e. merge DataFrame right h left_on right_on suffixes = Inl e"
  by (cases "column_of right right_on") (auto simp: merge_def bindR_def column_of_DataFrame)

lemma merge_statistic_DataFrame: "\<exists>e. merge_statistic stats DataFrame = Inl e"
  using merge_DataFrame_left[of stats LeftJoin TEAM_ID TEAM_ID "([], DUPLICATE_SUFFIX)"]
  by (auto simp: merge_statistic_def bindR_def)

lemma merge_team_statistics_DataFrame: "fst (merge_team_statistics self DataFrame) = DataFrame"
proof (cases "bindR (get_team_goals_added self COMPETITION) (\<lambda>team_goals_added.
           bindR (get_team_xgoals self COMPETITION) (\<lambda>team_xgoals.
           bindR (get_team_xpass self COMPETITION) (\<lambda>team_xpass.
             Inr (team_goals_added, team_xgoals, team_xpass))))")
  case (Inl e)
  then show ?thesis by (simp add: merge_team_statistics_def)
next
  case (Inr stats)
  obtain ga xg xp where stats: "stats = (ga, xg, xp)" by (cases stats)
  from merge_statistic_DataFrame[of ga] obtain e where "merge_statistic ga DataFrame = Inl e"
    by blast
  with Inr stats show ?thesis by (simp add: merge_team_statistics_def)
qed

lemma try_or_Inl: "fst (try_or (Inl e) msg fallback) = fallback"
  by (simp add: try_or_def)

lemma fetch_dimension_Inl: "fetch_dimension (Inl e) competition = Inl e"
  by (simp add: fetch_dimension_def bindR_def)

lemma fetch_dimensions_teams_down:
  assumes "client_teams self = Inl e"
  shows "\<exists>e'. fst (fetch_dimensions self competition) = Inl e'"
  unfolding fetch_dimensions_def
  apply (rule bindL_fails)
  apply (rule bindL_guarded_fails)
  apply (rule bindL_guarded_fails)
  apply (simp add: assms fetch_dimension_Inl try_or_Inl merge_team_statistics_DataFrame
      astype_category_DataFrame bindL_unguarded_Inl)
  done

lemma fetch_dimensions_managers_down:
  assumes "client_managers self = Inl e"
  shows "\<exists>e'. fst (fetch_dimensions self competition) = Inl e'"
  unfolding fetch_dimensions_def
  apply (rule bindL_fails, rule bindL_fails, rule bindL_fails, rule bindL_fails,
         rule bindL_fails, rule bindL_fails, rule bindL_fails)
  apply (rule bindL_guarded_fails)
  apply (simp add: assms fetch_dimension_Inl try_or_Inl astype_category_DataFrame
      bindL_unguarded_Inl)
  done

lemma fetch_dimensions_referees_down:
  assumes "get_referees self competition = Inl e"
  shows "\<exists>e'. fst (fetch_dimensions self competition) = Inl e'"
  unfolding fetch_dimensions_def
  apply (rule bindL_fails, rule bindL_fails, rule bindL_fails, rule bindL_fails,
         rule bindL_fails, rule bindL_fails, rule bindL_fails, rule bindL_fails,
         rule bindL_fails)
  apply (rule bindL_guarded_fails)
  apply (simp add: assms try_or_Inl astype_category_DataFrame bindL_unguarded_Inl)
  done

lemma bindL_fails_on:
  "(\<And>x l. m = (Inr x, l) \<Longrightarrow> \<exists>e. fst (f x) = Inl e) \<Longrightarrow> \<exists>e. fst (bindL m f) = Inl e"
proof -
  assume f: "\<And>x l. m = (Inr x, l) \<Longrightarrow> \<exists>e. fst (f x) = Inl e"
  obtain r l where m: "m = (r, l)" by (cases m)
  show ?thesis
  proof (cases r)
    case (Inl e)
    with m show ?thesis by (simp add: bindL_def)
  next
    case (Inr x)
    with m f[of x l] obtain e where "fst (f x) = Inl e" by blast
    with m Inr show ?thesis by (cases "f x") (simp add: bindL_def)
  qed
qed

lemma bindL_Inr_D:
  "bindL m f = (Inr y, l) \<Longrightarrow> \<exists>x l1 l2. m = (Inr x, l1) \<and> f x = (Inr y, l2)"
  by (auto simp: bindL_def split: prod.splits sum.splits)

lemma fetch_dimensions_players:
  assumes "fetch_dimensions self competition = (Inr dims, l)"
  shows "dim_players dims =
           fst (try_or (fetch_dimension (client_players self) competition)
                  (''Error fetching players data for '' @ competition) DataFrame)"
proof -
  from assms[unfolded fetch_dimensions_def] obtain players l1 l2 where
    p: "guarded (try_or (fetch_dimension (client_players self) competition)
                  (''Error fetching players data for '' @ competition) DataFrame) = (Inr players, l1)"
    and rest: "bindL (guarded (try_or (fetch_dimension (client_teams self) competition)
                      (''Error fetching teams data for '' @ competition) DataFrame)) (\<lambda>teams.
     bindL (guarded (merge_team_statistics self teams)) (\<lambda>teams.
     bindL (unguarded (astype_category teams ''team_name'')) (\<lambda>teams.
     bindL (unguarded (astype_category teams ''team_abbreviation'')) (\<lambda>teams.
     bindL (unguarded (select_columns teams teams_columns)) (\<lambda>teams.
     bindL (guarded (try_or (fetch_dimension (client_stadia self) competition)
                      (''Error fetching stadium data for '' @ competition) DataFrame)) (\<lambda>stadium.
     bindL (guarded (try_or (fetch_dimension (client_managers self) competition)
                      (''Error fetching managers data for '' @ competition) DataFrame)) (\<lambda>mgrs.
     bindL (unguarded (astype_category mgrs ''manager_name'')) (\<lambda>mgrs.
     bindL (guarded (try_or (get_referees self competition)
                      (''Error fetching referees data for '' @ competition) DataFrame)) (\<lambda>refs.
     bindL (unguarded (astype_category refs ''referee_name'')) (\<lambda>refs.
       return \<lparr>dim_players = players, dim_teams = teams, dim_stadium = stadium,
               dim_mgrs = mgrs, dim_refs = refs\<rparr>)))))))))) = (Inr dims, l2)"
    by (blast dest: bindL_Inr_D)
  from rest have "dim_players dims = players"
    by (auto dest!: bindL_Inr_D simp: return_def)
  with p show ?thesis by (simp add: guarded_def)
qed

lemma run_steps_first_fails: "f x = Inl e \<Longrightarrow> run_steps x (f # fs) = (x, Some e)"
  by simp

lemma merge_player_statistic_DataFrame:
  assumes "fst pl = DataFrame"
  shows "fst (merge_player_statistic competition pl df) = DataFrame"
proof -
  from merge_DataFrame_left[of df LeftJoin "''player_id''" "''player_id''" "([], ''_dup'')"]
  obtain e where "merge DataFrame df LeftJoin ''player_id'' ''player_id'' ([], ''_dup'') = Inl e"
    by blast
  with assms show ?thesis
    by (simp add: merge_player_statistic_def try_steps_def split: prod.splits)
qed

lemma build_squads_players_down:
  assumes "dim_players dims = DataFrame"
  shows "\<exists>e'. fst (build_squads self competition dims) = Inl e'"
  unfolding build_squads_def
  apply (rule bindL_fails, rule bindL_fails, rule bindL_fails, rule bindL_fails,
         rule bindL_fails)
  apply (rule bindL_guarded_fails)
  apply (simp add: assms merge_player_statistic_DataFrame astype_category_DataFrame
      bindL_unguarded_Inl)
  done

text \<open>
  C5. The claim is that a failed dimension fetch is replaced by an empty relation and
  that the other fetches and the rest of the pipeline still run. The replacement and
  the log entry are there, but the statement that follows reads a column of the table
  without a guard: \<open>teams['team_name']\<close>, \<open>mgrs['manager_name']\<close>,
  \<open>refs['referee_name']\<close>, \<open>players['nationality']\<close>. On the empty table it raises
  \<open>KeyError\<close>, which only the outer handler catches. So when the players, teams,
  managers or referees fetch fails, \<open>fetch_data\<close> returns the empty mapping; after a
  failed teams or managers fetch the later dimensions are not even requested.
\<close>

theorem fetch_data_dimension_down:
  assumes "client_players self = Inl e \<or> client_teams self = Inl e \<or>
           client_managers self = Inl e \<or> get_referees self COMPETITION = Inl e"
  shows "fst (fetch_data self competition) = Map.empty"
proof (rule fetch_data_empty)
  from assms consider
      (dims) "client_teams self = Inl e \<or> client_managers self = Inl e \<or>
              get_referees self COMPETITION = Inl e"
    | (players) "client_players self = Inl e" by blast
  then show "\<exists>e'. fst (fetch_body self COMPETITION) = Inl e'"
  proof cases
    case dims
    then have "\<exists>e'. fst (fetch_dimensions self COMPETITION) = Inl e'"
      using fetch_dimensions_teams_down fetch_dimensions_managers_down
        fetch_dimensions_referees_down by blast
    then show ?thesis
      by (cases "fetch_dimensions self COMPETITION") (auto simp: fetch_body_def bindL_def)
  next
    case players
    show ?thesis
      unfolding fetch_body_def
    proof (rule bindL_fails_on)
      fix dims l
      assume "fetch_dimensions self COMPETITION = (Inr dims, l)"
      from fetch_dimensions_players[OF this] players have "dim_players dims = DataFrame"
        by (simp add: fetch_dimension_Inl try_or_Inl)
      from build_squads_players_down[OF this] obtain e' where
        "fst (build_squads self COMPETITION dims) = Inl e'" by blast
      then show "\<exists>e. fst (bindL (build_squads self COMPETITION dims) (\<lambda>sq.
             bindL (guarded (process_games self COMPETITION dims)) (\<lambda>games.
             bindL (guarded (merge_game_xgoals self COMPETITION games)) (\<lambda>games.
             bindL (guarded (name_matches COMPETITION games)) (\<lambda>games.
             bindL (guarded (select_games_columns COMPETITION games)) (\<lambda>games.
               unguarded (compile_data games sq dims))))))) = Inl e"
        by (cases "build_squads self COMPETITION dims") (auto simp: bindL_def)
    qed
  qed
qed

theorem fetch_data_dimension_down_witness:
  "client_managers (league_client\<lparr>client_managers := Inl (ClientError ''timeout'')\<rparr>) =
     Inl (ClientError ''timeout'') \<and>
   fst (fetch_data (league_client\<lparr>client_managers := Inl (ClientError ''timeout'')\<rparr>) ''uslc'') =
     Map.empty"
  using fetch_data_dimension_down
          [of "league_client\<lparr>client_managers := Inl (ClientError ''timeout'')\<rparr>"
              "ClientError ''timeout''" "''uslc''"]
  by simp

subsection \<open>The games variable left unbound\<close>

lemma process_games_down:
  "get_games self COMPETITION = Inl e \<Longrightarrow>
   process_games self competition dims =
     (None, [(''Error processing games data for '' @ competition, e)])"
  by (simp add: process_games_def)

lemma merge_game_xgoals_unbound:
  "\<exists>e. merge_game_xgoals self competition None =
         (None, [(''Error merging game xGoals data for '' @ competition, e)])"
  by (cases "get_game_xgoals self competition")
     (auto simp: merge_game_xgoals_def try_keep_def try_or_def bindR_def read_local_def)

lemma name_matches_unbound:
  "name_matches competition None =
     (None, [(''Error creating match names or dropping columns for '' @ competition,
              UnboundLocalError ''games'')])"
  by (simp add: name_matches_def read_local_def)

lemma select_games_columns_unbound:
  "select_games_columns competition None =
     (None, [(''Error selecting and renaming columns in games data for '' @ competition,
              UnboundLocalError ''games'')])"
  by (simp add: select_games_columns_def try_keep_def try_or_def bindR_def read_local_def)

lemma compile_data_unbound: "compile_data None sq dims = Inl (UnboundLocalError ''games'')"
  by (simp add: compile_data_def read_local_def bindR_def)

lemma games_tail_unbound:
  assumes "get_games self COMPETITION = Inl e"
  shows "\<exists>l. bindL (guarded (process_games self competition dims)) (\<lambda>games.
     bindL (guarded (merge_game_xgoals self competition games)) (\<lambda>games.
     bindL (guarded (name_matches competition games)) (\<lambda>games.
     bindL (guarded (select_games_columns competition games)) (\<lambda>games.
       unguarded (compile_data games sq dims))))) = (Inl (UnboundLocalError ''games''), l)"
proof -
  from merge_game_xgoals_unbound[of self competition] obtain e' where
    "merge_game_xgoals self competition None =
         (None, [(''Error merging game xGoals data for '' @ competition, e')])" by blast
  then show ?thesis
    by (simp add: process_games_down[OF assms] name_matches_unbound select_games_columns_unbound
        compile_data_unbound bindL_def guarded_def unguarded_def)
qed

text \<open>
  C6. The claim is that, when \<open>get_games\<close> raises, the mapping has an empty relation
  under \<open>games\<close> and the other tables under their keys. The handler of line 357 logs
  and binds nothing, unlike the handlers of the other fetches; \<open>games\<close> stays unbound,
  the three guarded blocks that follow each log an \<open>UnboundLocalError\<close>, and the
  dictionary display of line 392, which is under the outer \<open>try\<close> only, raises it
  again. \<open>fetch_data\<close> returns the empty mapping, whatever the other requests returned.
\<close>

theorem fetch_data_games_down:
  assumes "get_games self COMPETITION = Inl e"
  shows "fst (fetch_data self competition) = Map.empty"
proof (rule fetch_data_empty)
  show "\<exists>e'. fst (fetch_body self COMPETITION) = Inl e'"
    unfolding fetch_body_def
  proof (rule bindL_fails, rule bindL_fails)
    fix dims sq
    from games_tail_unbound[OF assms, of COMPETITION dims sq]
    show "\<exists>e. fst (bindL (guarded (process_games self COMPETITION dims)) (\<lambda>games.
             bindL (guarded (merge_game_xgoals self COMPETITION games)) (\<lambda>games.
             bindL (guarded (name_matches COMPETITION games)) (\<lambda>games.
             bindL (guarded (select_games_columns COMPETITION games)) (\<lambda>games.
               unguarded (compile_data games sq dims)))))) = Inl e"
      by auto
  qed
qed

theorem fetch_data_games_down_witness:
  "get_games (league_client\<lparr>get_games := (\<lambda>c. Inl (ClientError ''timeout''))\<rparr>) COMPETITION =
     Inl (ClientError ''timeout'') \<and>
   fst (fetch_data (league_client\<lparr>get_games := (\<lambda>c. Inl (ClientError ''timeout''))\<rparr>) ''uslc'') =
     Map.empty"
  using fetch_data_games_down
          [of "league_client\<lparr>get_games := (\<lambda>c. Inl (ClientError ''timeout''))\<rparr>"
              "ClientError ''timeout''" "''uslc''"]
  by simp

text \<open>
  When the dimension and squad phases have succeeded, so that all other tables are there,
  this is the whole outcome of a failed \<open>get_games\<close>: the empty mapping and five more
  log entries.
\<close>

lemma games_unbound_log:
  assumes "fetch_dimensions self COMPETITION = (Inr dims, l1)"
    and "build_squads self COMPETITION dims = (Inr sq, l2)"
    and "get_games self COMPETITION = Inl e"
    and "get_game_xgoals self COMPETITION = Inr xg"
  shows "fetch_data self competition =
     (Map.empty, l1 @ l2 @
        [(''Error processing games data for '' @ COMPETITION, e),
         (''Error merging game xGoals data for '' @ COMPETITION, UnboundLocalError ''games''),
         (''Error creating match names or dropping columns for '' @ COMPETITION,
          UnboundLocalError ''games''),
         (''Error selecting and renaming columns in games data for '' @ COMPETITION,
          UnboundLocalError ''games''),
         (''General error in fetch_data for '' @ COMPETITION, UnboundLocalError ''games'')])"
proof -
  have xg: "merge_game_xgoals self COMPETITION None =
      (None, [(''Error merging game xGoals data for '' @ COMPETITION, UnboundLocalError ''games'')])"
    using assms(4)
    by (simp add: merge_game_xgoals_def try_keep_def try_or_def bindR_def read_local_def)
  show ?thesis
    by (simp add: fetch_data_def fetch_body_def assms(1,2) process_games_down[OF assms(3)] xg
        name_matches_unbound select_games_columns_unbound compile_data_unbound
        bindL_def guarded_def unguarded_def)
qed



text \<open>
  C10. \<open>fetch_data\<close> returns the same mapping, and logs the same, for every two competition
  arguments: the first statement of its body replaces the argument by the class
  constant \<open>uslc\<close>, and every request and every log message uses that value.
\<close>

theorem fetch_data_ignores_competition:
  "fetch_data self c1 = fetch_data self c2"
  by (simp add: fetch_data_def)

end
